theory Spec2Isabelle
  imports Main "HOL-Library.Word"
begin

section \<open>The file interface of velox/common/file/File.h\<close>

text \<open>
  The header declares two abstract classes, \<open>ReadFile\<close> and \<open>WriteFile\<close>, and
  their in-memory and local-disk implementations.  A class with data members is a record
  (a subclass extends the record of its base), and a call of a virtual member function
  goes through a table of the implementations a concrete class provides: a pure virtual
  function is a mandatory slot, a virtual function with a body in the base class is an
  optional slot, and an empty optional slot means the class inherits the base's body.

  A data member named \<open>x_\<close> in the source is the field \<open>x_m\<close> here (an identifier
  cannot end in an underscore).  Where two classes declare a member of the same name,
  the field is written with its record, as in \<open>LocalWriteFile.size_m\<close>.
\<close>

subsection \<open>Machine integers, bytes and errors\<close>

type_synonym u64 = "64 word"
type_synonym i64 = "64 word"
type_synonym i32 = "32 word"

text \<open>
  Modelled from the spec: velox/common/base/Exceptions.h is not among the sources.  The
  error kinds are those of the spec's error-handling design; all of them are Velox
  exceptions, which derive from \<open>std::exception\<close>.  \<open>VELOX_NYI(fmt, args)\<close> raises
  the \<open>NotImplemented\<close> error with the formatted message.

  C++ lets a function throw a value of any type.  \<open>NotStdException v\<close> is a thrown value
  whose type does not derive from \<open>std::exception\<close>, as in \<open>throw 42\<close>; it is given by
  a number.  A handler \<open>catch (const std::exception&)\<close> matches a thrown value exactly
  if \<open>is_std_exception\<close> holds of it.
\<close>

datatype error =
  NotImplemented string | OutOfRange | IoError | AlreadyExists | NotStdException int

fun is_std_exception :: "error \<Rightarrow> bool" where
  "is_std_exception (NotStdException v) = False"
| "is_std_exception _ = True"

text \<open>The one-argument use of the format string: the first \<open>{}\<close> is replaced.\<close>

fun fmt_format :: "string \<Rightarrow> string \<Rightarrow> string" where
  "fmt_format [] a = []"
| "fmt_format [c] a = [c]"
| "fmt_format (c # d # cs) a =
     (if c = CHR ''{'' \<and> d = CHR ''}'' then a @ cs else c # fmt_format (d # cs) a)"

definition VELOX_NYI :: "string \<Rightarrow> error + 'a" where
  "VELOX_NYI msg = Inl (NotImplemented msg)"

text \<open>
  A \<open>folly::SemiFuture<T>\<close> that is already completed holds a value or an exception.
  The header only ever builds completed futures.  folly is not part of the repository:
  the exception that \<open>folly::makeSemiFuture<T>(e)\<close> puts into the future is given by the
  thrown object \<open>e\<close> it is made from, which it receives by a reference of static type
  \<open>std::exception\<close>; what folly keeps of that object (its dynamic type, its message)
  is not modelled.
\<close>

datatype exception_wrapper = FromStdException error

datatype 'a SemiFuture = FutureValue 'a | FutureException exception_wrapper

text \<open>
  Modelled from the spec: velox/common/file/Region.h is not among the sources.  A region
  is an offset and a length, both unsigned 64-bit.
\<close>

record Region =
  region_offset :: u64
  region_length :: u64

text \<open>
  Pointers to objects the header only passes on: the statistics sink and the executor are
  named by a number, \<open>None\<close> is \<open>nullptr\<close>.
\<close>

type_synonym IoStats = nat
type_synonym Executor = nat

text \<open>
  A \<open>folly::Range<char*>\<close> is a destination in memory: either a null pointer with a
  size (the bytes are skipped) or a piece of memory, given by its current content.
  A \<open>folly::IOBuf\<close> is given by the bytes it holds.  A \<open>std::string_view\<close> into a
  caller's buffer is the position where it starts in that buffer and its size.
\<close>

datatype CharRange = NullRange nat | MemRange string

fun range_size :: "CharRange \<Rightarrow> nat" where
  "range_size (NullRange n) = n"
| "range_size (MemRange m) = length m"

type_synonym IOBuf = string
type_synonym string_view = "nat \<times> nat"

definition view_bytes :: "string \<Rightarrow> string_view \<Rightarrow> string" where
  "view_bytes buf v = take (snd v) (drop (fst v) buf)"

text \<open>Freshly allocated memory of \<open>n\<close> bytes; every byte is written before it is read.\<close>

definition fresh_buffer :: "nat \<Rightarrow> string" where
  "fresh_buffer n = replicate n (CHR 0x00)"

subsection \<open>class ReadFile\<close>

record ReadFile =
  bytesRead_m :: u64

text \<open>
  The virtual member functions of \<open>ReadFile\<close>.  The member functions are \<open>const\<close>
  but update the mutable counter, so each returns the object after the call; a function
  that writes to memory of the caller returns that memory after the call as well, and a
  function that can raise returns an \<open>error +\<close> result.  The two overloads of
  \<open>pread\<close> are \<open>pread\<close> (into a buffer) and \<open>pread_owned\<close>; the two of
  \<open>preadv\<close> are \<open>preadv\<close> (offset and buffers) and \<open>preadv_regions\<close>.
\<close>

record 'a ReadFile_vtable =
  vt_pread :: "'a ReadFile_scheme \<Rightarrow> u64 \<Rightarrow> u64 \<Rightarrow> string \<Rightarrow> IoStats option
                 \<Rightarrow> (error + string_view) \<times> string \<times> 'a ReadFile_scheme"
  vt_pread_owned :: "('a ReadFile_scheme \<Rightarrow> u64 \<Rightarrow> u64 \<Rightarrow> IoStats option
                 \<Rightarrow> (error + string) \<times> 'a ReadFile_scheme) option"
  vt_preadv :: "('a ReadFile_scheme \<Rightarrow> u64 \<Rightarrow> CharRange list \<Rightarrow> IoStats option
                 \<Rightarrow> (error + u64) \<times> CharRange list \<times> 'a ReadFile_scheme) option"
  vt_preadv_regions :: "('a ReadFile_scheme \<Rightarrow> Region list \<Rightarrow> IOBuf list \<Rightarrow> IoStats option
                 \<Rightarrow> (error + u64) \<times> IOBuf list \<times> 'a ReadFile_scheme) option"
  vt_preadvAsync :: "('a ReadFile_scheme \<Rightarrow> u64 \<Rightarrow> CharRange list \<Rightarrow> IoStats option
                 \<Rightarrow> (error + u64 SemiFuture) \<times> CharRange list \<times> 'a ReadFile_scheme) option"
  vt_hasPreadvAsync :: "('a ReadFile_scheme \<Rightarrow> bool) option"
  vt_shouldCoalesce :: "'a ReadFile_scheme \<Rightarrow> bool"
  vt_size :: "'a ReadFile_scheme \<Rightarrow> u64"
  vt_memoryUsage :: "'a ReadFile_scheme \<Rightarrow> u64"
  vt_bytesRead :: "('a ReadFile_scheme \<Rightarrow> u64) option"
  vt_resetBytesRead :: "('a ReadFile_scheme \<Rightarrow> 'a ReadFile_scheme) option"
  vt_getName :: "'a ReadFile_scheme \<Rightarrow> string"
  vt_getNaturalReadSize :: "'a ReadFile_scheme \<Rightarrow> u64"

text \<open>A call of the pure virtual \<open>pread\<close> runs the implementation of the object's class.\<close>

definition call_pread ::
  "'a ReadFile_vtable \<Rightarrow> 'a ReadFile_scheme \<Rightarrow> u64 \<Rightarrow> u64 \<Rightarrow> string \<Rightarrow> IoStats option
     \<Rightarrow> (error + string_view) \<times> string \<times> 'a ReadFile_scheme" where
  "call_pread vt = vt_pread vt"

text \<open>
  Modelled from the spec: the body of \<open>ReadFile::pread\<close> (owned) is in File.cpp, which is
  not among the sources.  It allocates a buffer of \<open>length\<close> bytes and delegates to the
  buffer-based primitive.
\<close>

definition ReadFile_pread_owned ::
  "'a ReadFile_vtable \<Rightarrow> 'a ReadFile_scheme \<Rightarrow> u64 \<Rightarrow> u64 \<Rightarrow> IoStats option
     \<Rightarrow> (error + string) \<times> 'a ReadFile_scheme" where
  "ReadFile_pread_owned vt f offset len stats =
     (case call_pread vt f offset len (fresh_buffer (unat len)) stats of
        (Inl e, buf, f') \<Rightarrow> (Inl e, f')
      | (Inr v, buf, f') \<Rightarrow> (Inr buf, f'))"

text \<open>
  Modelled from the spec: the scattering that \<open>ReadFile::preadv\<close> does.  The bytes go
  into the destinations from left to right; a destination without data skips its size.
\<close>

fun scatter :: "string \<Rightarrow> CharRange list \<Rightarrow> CharRange list" where
  "scatter src [] = []"
| "scatter src (NullRange n # bs) = NullRange n # scatter (drop n src) bs"
| "scatter src (MemRange m # bs) =
     MemRange (take (length m) src) # scatter (drop (length m) src) bs"

text \<open>
  Modelled from the spec: the body of \<open>ReadFile::preadv\<close> (offset and buffers) is in
  File.cpp, which is not among the sources.  It performs one contiguous read into a
  temporary buffer sized to the sum of the buffer lengths, then scatters it into the
  destinations, and returns the number of bytes read.
\<close>

definition ReadFile_preadv ::
  "'a ReadFile_vtable \<Rightarrow> 'a ReadFile_scheme \<Rightarrow> u64 \<Rightarrow> CharRange list \<Rightarrow> IoStats option
     \<Rightarrow> (error + u64) \<times> CharRange list \<times> 'a ReadFile_scheme" where
  "ReadFile_preadv vt f offset buffers stats =
     (let n = sum_list (map range_size buffers) in
      case call_pread vt f offset (of_nat n) (fresh_buffer n) stats of
        (Inl e, tmp, f') \<Rightarrow> (Inl e, buffers, f')
      | (Inr v, tmp, f') \<Rightarrow> (Inr (of_nat n), scatter (view_bytes tmp v) buffers, f'))"

text \<open>
  Modelled from the spec: the loop of \<open>ReadFile::preadv\<close> (regions), whose body is in
  File.cpp, which is not among the sources.  The batch read decomposes into one
  single-range read per region, in input order; output \<open>i\<close> receives the bytes read for
  region \<open>i\<close>, and the result is the total of the region lengths.  The spec makes arrays
  of equal length an obligation of the caller and says nothing of a call that breaks it;
  an output index beyond the array is left unwritten here.
\<close>

fun preadv_regions_loop ::
  "'a ReadFile_vtable \<Rightarrow> 'a ReadFile_scheme \<Rightarrow> Region list \<Rightarrow> nat \<Rightarrow> IOBuf list \<Rightarrow> u64
     \<Rightarrow> IoStats option \<Rightarrow> (error + u64) \<times> IOBuf list \<times> 'a ReadFile_scheme" where
  "preadv_regions_loop vt f [] i iobufs n stats = (Inr n, iobufs, f)"
| "preadv_regions_loop vt f (r # rs) i iobufs n stats =
     (case call_pread vt f (region_offset r) (region_length r)
             (fresh_buffer (unat (region_length r))) stats of
        (Inl e, buf, f') \<Rightarrow> (Inl e, iobufs, f')
      | (Inr v, buf, f') \<Rightarrow>
          preadv_regions_loop vt f' rs (Suc i) (iobufs[i := view_bytes buf v])
            (n + region_length r) stats)"

text \<open>
  Modelled from the spec: \<open>ReadFile::preadv\<close> (regions) is the loop above from the first
  region and output on, with a total of 0.
\<close>

definition ReadFile_preadv_regions ::
  "'a ReadFile_vtable \<Rightarrow> 'a ReadFile_scheme \<Rightarrow> Region list \<Rightarrow> IOBuf list \<Rightarrow> IoStats option
     \<Rightarrow> (error + u64) \<times> IOBuf list \<times> 'a ReadFile_scheme" where
  "ReadFile_preadv_regions vt f regions iobufs stats =
     preadv_regions_loop vt f regions 0 iobufs 0 stats"

text \<open>
  The other virtual calls: the override of the object's class if it has one, else the
  base's body.
\<close>

definition call_pread_owned ::
  "'a ReadFile_vtable \<Rightarrow> 'a ReadFile_scheme \<Rightarrow> u64 \<Rightarrow> u64 \<Rightarrow> IoStats option
     \<Rightarrow> (error + string) \<times> 'a ReadFile_scheme" where
  "call_pread_owned vt =
     (case vt_pread_owned vt of None \<Rightarrow> ReadFile_pread_owned vt | Some impl \<Rightarrow> impl)"

definition call_preadv ::
  "'a ReadFile_vtable \<Rightarrow> 'a ReadFile_scheme \<Rightarrow> u64 \<Rightarrow> CharRange list \<Rightarrow> IoStats option
     \<Rightarrow> (error + u64) \<times> CharRange list \<times> 'a ReadFile_scheme" where
  "call_preadv vt =
     (case vt_preadv vt of None \<Rightarrow> ReadFile_preadv vt | Some impl \<Rightarrow> impl)"

definition call_preadv_regions ::
  "'a ReadFile_vtable \<Rightarrow> 'a ReadFile_scheme \<Rightarrow> Region list \<Rightarrow> IOBuf list \<Rightarrow> IoStats option
     \<Rightarrow> (error + u64) \<times> IOBuf list \<times> 'a ReadFile_scheme" where
  "call_preadv_regions vt =
     (case vt_preadv_regions vt of None \<Rightarrow> ReadFile_preadv_regions vt | Some impl \<Rightarrow> impl)"

text \<open>
  \<open>ReadFile::preadvAsync\<close> (File.h, lines 114 to 123): the synchronous \<open>preadv\<close>, a
  virtual call, inside \<open>try\<close>; its value completes the future.  The only handler is
  \<open>catch (const std::exception& e)\<close>: a thrown value that it matches goes into
  \<open>folly::makeSemiFuture<uint64_t>(e)\<close>, and a thrown value that it does not match
  leaves \<open>preadvAsync\<close> as it left \<open>preadv\<close>.
\<close>

definition ReadFile_preadvAsync ::
  "'a ReadFile_vtable \<Rightarrow> 'a ReadFile_scheme \<Rightarrow> u64 \<Rightarrow> CharRange list \<Rightarrow> IoStats option
     \<Rightarrow> (error + u64 SemiFuture) \<times> CharRange list \<times> 'a ReadFile_scheme" where
  "ReadFile_preadvAsync vt f offset buffers stats =
     (case call_preadv vt f offset buffers stats of
        (Inr n, buffers', f') \<Rightarrow> (Inr (FutureValue n), buffers', f')
      | (Inl e, buffers', f') \<Rightarrow>
          (if is_std_exception e
           then (Inr (FutureException (FromStdException e)), buffers', f')
           else (Inl e, buffers', f')))"

definition call_preadvAsync ::
  "'a ReadFile_vtable \<Rightarrow> 'a ReadFile_scheme \<Rightarrow> u64 \<Rightarrow> CharRange list \<Rightarrow> IoStats option
     \<Rightarrow> (error + u64 SemiFuture) \<times> CharRange list \<times> 'a ReadFile_scheme" where
  "call_preadvAsync vt =
     (case vt_preadvAsync vt of None \<Rightarrow> ReadFile_preadvAsync vt | Some impl \<Rightarrow> impl)"

text \<open>\<open>ReadFile::hasPreadvAsync\<close> (lines 127 to 129).\<close>

definition ReadFile_hasPreadvAsync :: "'a ReadFile_scheme \<Rightarrow> bool" where
  "ReadFile_hasPreadvAsync f = False"

definition call_hasPreadvAsync :: "'a ReadFile_vtable \<Rightarrow> 'a ReadFile_scheme \<Rightarrow> bool" where
  "call_hasPreadvAsync vt =
     (case vt_hasPreadvAsync vt of None \<Rightarrow> ReadFile_hasPreadvAsync | Some impl \<Rightarrow> impl)"

text \<open>\<open>ReadFile::bytesRead\<close> and \<open>ReadFile::resetBytesRead\<close> (lines 144 to 150).\<close>

definition ReadFile_bytesRead :: "'a ReadFile_scheme \<Rightarrow> u64" where
  "ReadFile_bytesRead f = bytesRead_m f"

definition ReadFile_resetBytesRead :: "'a ReadFile_scheme \<Rightarrow> 'a ReadFile_scheme" where
  "ReadFile_resetBytesRead f = f\<lparr>bytesRead_m := 0\<rparr>"

definition call_bytesRead :: "'a ReadFile_vtable \<Rightarrow> 'a ReadFile_scheme \<Rightarrow> u64" where
  "call_bytesRead vt =
     (case vt_bytesRead vt of None \<Rightarrow> ReadFile_bytesRead | Some impl \<Rightarrow> impl)"

definition call_resetBytesRead ::
  "'a ReadFile_vtable \<Rightarrow> 'a ReadFile_scheme \<Rightarrow> 'a ReadFile_scheme" where
  "call_resetBytesRead vt =
     (case vt_resetBytesRead vt of None \<Rightarrow> ReadFile_resetBytesRead | Some impl \<Rightarrow> impl)"

definition call_shouldCoalesce :: "'a ReadFile_vtable \<Rightarrow> 'a ReadFile_scheme \<Rightarrow> bool" where
  "call_shouldCoalesce vt = vt_shouldCoalesce vt"

definition call_size :: "'a ReadFile_vtable \<Rightarrow> 'a ReadFile_scheme \<Rightarrow> u64" where
  "call_size vt = vt_size vt"

text \<open>The bytes of a file in the range of \<open>length\<close> bytes that starts at \<open>offset\<close>.\<close>

definition file_bytes :: "string \<Rightarrow> u64 \<Rightarrow> u64 \<Rightarrow> string" where
  "file_bytes file offset len = take (unat len) (drop (unat offset) file)"

subsection \<open>class InMemoryReadFile\<close>

record InMemoryReadFile = ReadFile +
  ownedFile_m :: string
  file_m :: string
  shouldCoalesce_m :: bool

type_synonym InMemoryReadFile_more = "unit InMemoryReadFile_ext"

text \<open>
  The two constructors (lines 234 to 237); the members without an initialiser take their
  default member initialisers: \<open>bytesRead_ = 0\<close> and \<open>shouldCoalesce_ = false\<close>.
\<close>

definition InMemoryReadFile_of_view :: "string \<Rightarrow> InMemoryReadFile" where
  "InMemoryReadFile_of_view file =
     \<lparr>bytesRead_m = 0, ownedFile_m = [], file_m = file, shouldCoalesce_m = False\<rparr>"

definition InMemoryReadFile_of_string :: "string \<Rightarrow> InMemoryReadFile" where
  "InMemoryReadFile_of_string file =
     \<lparr>bytesRead_m = 0, ownedFile_m = file, file_m = file, shouldCoalesce_m = False\<rparr>"

text \<open>
  The member functions with a body in the header (lines 250 to 272); \<open>setShouldCoalesce\<close>
  is not virtual.
\<close>

definition InMemoryReadFile_size :: "InMemoryReadFile \<Rightarrow> u64" where
  "InMemoryReadFile_size f = of_nat (length (file_m f))"

definition InMemoryReadFile_memoryUsage :: "InMemoryReadFile \<Rightarrow> u64" where
  "InMemoryReadFile_memoryUsage f = InMemoryReadFile_size f"

definition setShouldCoalesce :: "InMemoryReadFile \<Rightarrow> bool \<Rightarrow> InMemoryReadFile" where
  "setShouldCoalesce f shouldCoalesce = f\<lparr>shouldCoalesce_m := shouldCoalesce\<rparr>"

definition InMemoryReadFile_shouldCoalesce :: "InMemoryReadFile \<Rightarrow> bool" where
  "InMemoryReadFile_shouldCoalesce f = shouldCoalesce_m f"

definition InMemoryReadFile_getName :: "InMemoryReadFile \<Rightarrow> string" where
  "InMemoryReadFile_getName f = ''<InMemoryReadFile>''"

definition InMemoryReadFile_getNaturalReadSize :: "InMemoryReadFile \<Rightarrow> u64" where
  "InMemoryReadFile_getNaturalReadSize f = 1024"

text \<open>
  Modelled from the spec: the body of \<open>InMemoryReadFile::pread\<close> (into a buffer) is in
  File.cpp, which is not among the sources.  The read counts the requested length
  (requested, not necessarily delivered), fails with \<open>OutOfRange\<close> if offset plus
  length exceeds the file size, and otherwise fills the first \<open>length\<close> bytes of the
  caller's buffer and returns a view over them.  The caller's buffer is pre-allocated
  with room for \<open>length\<close> bytes; writing past a shorter one is undefined behaviour in
  C++, and no property below draws on that case.
\<close>

definition InMemoryReadFile_pread ::
  "InMemoryReadFile \<Rightarrow> u64 \<Rightarrow> u64 \<Rightarrow> string \<Rightarrow> IoStats option
     \<Rightarrow> (error + string_view) \<times> string \<times> InMemoryReadFile" where
  "InMemoryReadFile_pread f offset len buf stats =
     (let f' = f\<lparr>bytesRead_m := bytesRead_m f + len\<rparr> in
      if unat offset + unat len > unat (InMemoryReadFile_size f)
      then (Inl OutOfRange, buf, f')
      else (Inr (0, unat len), file_bytes (file_m f) offset len @ drop (unat len) buf, f'))"

text \<open>
  Modelled from the spec: \<open>InMemoryReadFile::pread\<close> (owned), whose body is in File.cpp,
  returns the bytes that the read into a buffer of \<open>length\<close> bytes delivers.
\<close>

definition InMemoryReadFile_pread_owned ::
  "InMemoryReadFile \<Rightarrow> u64 \<Rightarrow> u64 \<Rightarrow> IoStats option
     \<Rightarrow> (error + string) \<times> InMemoryReadFile" where
  "InMemoryReadFile_pread_owned f offset len stats =
     (case InMemoryReadFile_pread f offset len (fresh_buffer (unat len)) stats of
        (Inl e, buf, f') \<Rightarrow> (Inl e, f')
      | (Inr v, buf, f') \<Rightarrow> (Inr (view_bytes buf v), f'))"

text \<open>
  The class as declared (lines 232 to 278): it overrides both \<open>pread\<close> overloads,
  \<open>size\<close>, \<open>memoryUsage\<close>, \<open>shouldCoalesce\<close>, \<open>getName\<close> and
  \<open>getNaturalReadSize\<close>, and inherits the rest.
\<close>

definition InMemoryReadFile_vtable :: "InMemoryReadFile_more ReadFile_vtable" where
  "InMemoryReadFile_vtable =
     \<lparr>vt_pread = InMemoryReadFile_pread,
      vt_pread_owned = Some InMemoryReadFile_pread_owned,
      vt_preadv = None,
      vt_preadv_regions = None,
      vt_preadvAsync = None,
      vt_hasPreadvAsync = None,
      vt_shouldCoalesce = InMemoryReadFile_shouldCoalesce,
      vt_size = InMemoryReadFile_size,
      vt_memoryUsage = InMemoryReadFile_memoryUsage,
      vt_bytesRead = None,
      vt_resetBytesRead = None,
      vt_getName = InMemoryReadFile_getName,
      vt_getNaturalReadSize = InMemoryReadFile_getNaturalReadSize\<rparr>"

subsection \<open>class LocalReadFile\<close>

record LocalReadFile = ReadFile +
  executor_m :: "Executor option"
  path_m :: string
  fd_m :: i32
  size_m :: i64

type_synonym LocalReadFile_more = "unit LocalReadFile_ext"

text \<open>
  Modelled from the spec: the constructors are declared in the header (lines 299 to 306)
  and defined in File.cpp, which is not among the sources.  \<open>executor_\<close> is a
  \<open>const\<close> member, so it holds the constructor's \<open>executor\<close> argument for the life
  of the object.  The descriptor and the size that the operating system gives are
  parameters here.
\<close>

definition LocalReadFile_of_path ::
  "string \<Rightarrow> Executor option \<Rightarrow> bool \<Rightarrow> i32 \<Rightarrow> i64 \<Rightarrow> LocalReadFile" where
  "LocalReadFile_of_path path executor bufferIo fd sz =
     \<lparr>bytesRead_m = 0, executor_m = executor, path_m = path, fd_m = fd, size_m = sz\<rparr>"

text \<open>
  Modelled from the spec: the constructor from a descriptor (line 306), defined in
  File.cpp; it has no path.
\<close>

definition LocalReadFile_of_fd :: "i32 \<Rightarrow> Executor option \<Rightarrow> i64 \<Rightarrow> LocalReadFile" where
  "LocalReadFile_of_fd fd executor sz =
     \<lparr>bytesRead_m = 0, executor_m = executor, path_m = [], fd_m = fd, size_m = sz\<rparr>"

text \<open>The member functions with a body in the header (lines 328 to 347).\<close>

definition LocalReadFile_hasPreadvAsync :: "LocalReadFile \<Rightarrow> bool" where
  "LocalReadFile_hasPreadvAsync f = (executor_m f \<noteq> None)"

definition LocalReadFile_shouldCoalesce :: "LocalReadFile \<Rightarrow> bool" where
  "LocalReadFile_shouldCoalesce f = False"

definition LocalReadFile_getName :: "LocalReadFile \<Rightarrow> string" where
  "LocalReadFile_getName f = (if path_m f = [] then ''<LocalReadFile>'' else path_m f)"

definition LocalReadFile_getNaturalReadSize :: "LocalReadFile \<Rightarrow> u64" where
  "LocalReadFile_getNaturalReadSize f = push_bit 20 10"

text \<open>
  The class as declared (lines 297 to 356).  The overrides whose bodies are in File.cpp
  (\<open>pread\<close>, \<open>size\<close>, \<open>preadv\<close>, \<open>preadvAsync\<close>, \<open>memoryUsage\<close>) are
  parameters of the table; the others are the bodies above.
\<close>

definition LocalReadFile_vtable ::
  "(LocalReadFile \<Rightarrow> u64 \<Rightarrow> u64 \<Rightarrow> string \<Rightarrow> IoStats option
      \<Rightarrow> (error + string_view) \<times> string \<times> LocalReadFile)
   \<Rightarrow> (LocalReadFile \<Rightarrow> u64)
   \<Rightarrow> (LocalReadFile \<Rightarrow> u64 \<Rightarrow> CharRange list \<Rightarrow> IoStats option
      \<Rightarrow> (error + u64) \<times> CharRange list \<times> LocalReadFile)
   \<Rightarrow> (LocalReadFile \<Rightarrow> u64 \<Rightarrow> CharRange list \<Rightarrow> IoStats option
      \<Rightarrow> (error + u64 SemiFuture) \<times> CharRange list \<times> LocalReadFile)
   \<Rightarrow> (LocalReadFile \<Rightarrow> u64)
   \<Rightarrow> LocalReadFile_more ReadFile_vtable" where
  "LocalReadFile_vtable pread_impl size_impl preadv_impl preadvAsync_impl memoryUsage_impl =
     \<lparr>vt_pread = pread_impl,
      vt_pread_owned = None,
      vt_preadv = Some preadv_impl,
      vt_preadv_regions = None,
      vt_preadvAsync = Some preadvAsync_impl,
      vt_hasPreadvAsync = Some LocalReadFile_hasPreadvAsync,
      vt_shouldCoalesce = LocalReadFile_shouldCoalesce,
      vt_size = size_impl,
      vt_memoryUsage = memoryUsage_impl,
      vt_bytesRead = None,
      vt_resetBytesRead = None,
      vt_getName = LocalReadFile_getName,
      vt_getNaturalReadSize = LocalReadFile_getNaturalReadSize\<rparr>"

subsection \<open>Sequences of calls on a read file\<close>

text \<open>
  What a client can call on a \<open>ReadFile\<close>: the five read entry points and
  \<open>resetBytesRead\<close>.  A step is the object after the call; a call that raises leaves
  the object as it was when the exception left the callee.
\<close>

datatype ReadFile_op =
    Op_pread u64 u64 string "IoStats option"
  | Op_pread_owned u64 u64 "IoStats option"
  | Op_preadv u64 "CharRange list" "IoStats option"
  | Op_preadv_regions "Region list" "IOBuf list" "IoStats option"
  | Op_preadvAsync u64 "CharRange list" "IoStats option"
  | Op_resetBytesRead

fun ReadFile_step :: "'a ReadFile_vtable \<Rightarrow> 'a ReadFile_scheme \<Rightarrow> ReadFile_op \<Rightarrow> 'a ReadFile_scheme" where
  "ReadFile_step vt f (Op_pread offset len buf stats) =
     snd (snd (call_pread vt f offset len buf stats))"
| "ReadFile_step vt f (Op_pread_owned offset len stats) =
     snd (call_pread_owned vt f offset len stats)"
| "ReadFile_step vt f (Op_preadv offset buffers stats) =
     snd (snd (call_preadv vt f offset buffers stats))"
| "ReadFile_step vt f (Op_preadv_regions regions iobufs stats) =
     snd (snd (call_preadv_regions vt f regions iobufs stats))"
| "ReadFile_step vt f (Op_preadvAsync offset buffers stats) =
     snd (snd (call_preadvAsync vt f offset buffers stats))"
| "ReadFile_step vt f Op_resetBytesRead = call_resetBytesRead vt f"

fun is_read :: "ReadFile_op \<Rightarrow> bool" where
  "is_read Op_resetBytesRead = False"
| "is_read _ = True"

text \<open>The object before a sequence of calls and after each of them.\<close>

fun ReadFile_trace ::
  "'a ReadFile_vtable \<Rightarrow> 'a ReadFile_scheme \<Rightarrow> ReadFile_op list \<Rightarrow> 'a ReadFile_scheme list" where
  "ReadFile_trace vt f [] = [f]"
| "ReadFile_trace vt f (op # ops) = f # ReadFile_trace vt (ReadFile_step vt f op) ops"

text \<open>An \<open>InMemoryReadFile\<close> has \<open>setShouldCoalesce\<close> in addition.\<close>

datatype InMemoryReadFile_op = Op_ReadFile ReadFile_op | Op_setShouldCoalesce bool

fun InMemoryReadFile_step :: "InMemoryReadFile \<Rightarrow> InMemoryReadFile_op \<Rightarrow> InMemoryReadFile" where
  "InMemoryReadFile_step f (Op_ReadFile op) = ReadFile_step InMemoryReadFile_vtable f op"
| "InMemoryReadFile_step f (Op_setShouldCoalesce b) = setShouldCoalesce f b"

definition InMemoryReadFile_run :: "InMemoryReadFile \<Rightarrow> InMemoryReadFile_op list \<Rightarrow> InMemoryReadFile" where
  "InMemoryReadFile_run f ops = foldl InMemoryReadFile_step f ops"

text \<open>The argument of the last \<open>setShouldCoalesce\<close> in a sequence of calls, \<open>b\<close> if there is none.\<close>

fun last_setShouldCoalesce :: "bool \<Rightarrow> InMemoryReadFile_op list \<Rightarrow> bool" where
  "last_setShouldCoalesce b [] = b"
| "last_setShouldCoalesce b (Op_setShouldCoalesce b' # ops) = last_setShouldCoalesce b' ops"
| "last_setShouldCoalesce b (Op_ReadFile op # ops) = last_setShouldCoalesce b ops"

text \<open>All calls of a sequence, one after the other.\<close>

definition ReadFile_run ::
  "'a ReadFile_vtable \<Rightarrow> 'a ReadFile_scheme \<Rightarrow> ReadFile_op list \<Rightarrow> 'a ReadFile_scheme" where
  "ReadFile_run vt f ops = foldl (ReadFile_step vt) f ops"

text \<open>
  A read call completes if it returns, and for the asynchronous read if the future that
  it returns holds a value.
\<close>

fun completes :: "'a ReadFile_vtable \<Rightarrow> 'a ReadFile_scheme \<Rightarrow> ReadFile_op \<Rightarrow> bool" where
  "completes vt f (Op_pread offset len buf stats) =
     (\<not> isl (fst (call_pread vt f offset len buf stats)))"
| "completes vt f (Op_pread_owned offset len stats) =
     (\<not> isl (fst (call_pread_owned vt f offset len stats)))"
| "completes vt f (Op_preadv offset buffers stats) =
     (\<not> isl (fst (call_preadv vt f offset buffers stats)))"
| "completes vt f (Op_preadv_regions regions iobufs stats) =
     (\<not> isl (fst (call_preadv_regions vt f regions iobufs stats)))"
| "completes vt f (Op_preadvAsync offset buffers stats) =
     (case fst (call_preadvAsync vt f offset buffers stats) of
        Inr (FutureValue n) \<Rightarrow> True
      | _ \<Rightarrow> False)"
| "completes vt f Op_resetBytesRead = True"

text \<open>
  The sum of the lengths that a read call requests: the \<open>length\<close> argument of a single
  read, the sizes of all buffers of a read into buffers, the lengths of all regions of a
  batch; as the 64-bit sum that the counter takes, and as a number.
\<close>

fun requested_sum :: "ReadFile_op \<Rightarrow> u64" where
  "requested_sum (Op_pread offset len buf stats) = len"
| "requested_sum (Op_pread_owned offset len stats) = len"
| "requested_sum (Op_preadv offset buffers stats) = of_nat (sum_list (map range_size buffers))"
| "requested_sum (Op_preadv_regions regions iobufs stats) = sum_list (map region_length regions)"
| "requested_sum (Op_preadvAsync offset buffers stats) =
     of_nat (sum_list (map range_size buffers))"
| "requested_sum Op_resetBytesRead = 0"

fun requested_total :: "ReadFile_op \<Rightarrow> nat" where
  "requested_total (Op_pread offset len buf stats) = unat len"
| "requested_total (Op_pread_owned offset len stats) = unat len"
| "requested_total (Op_preadv offset buffers stats) = sum_list (map range_size buffers)"
| "requested_total (Op_preadv_regions regions iobufs stats) =
     sum_list (map (\<lambda>r. unat (region_length r)) regions)"
| "requested_total (Op_preadvAsync offset buffers stats) = sum_list (map range_size buffers)"
| "requested_total Op_resetBytesRead = 0"

text \<open>
  What a read call adds to the counter of an \<open>InMemoryReadFile\<close> as modelled above,
  whether or not it completes: a single read adds its \<open>length\<close> argument, a read into
  buffers the sum of the buffer sizes, and a batch the lengths of the single reads it
  issues, which stop with the first that is out of range.
\<close>

fun issued_length :: "InMemoryReadFile \<Rightarrow> Region list \<Rightarrow> u64" where
  "issued_length f [] = 0"
| "issued_length f (r # rs) =
     region_length r +
       (if unat (region_offset r) + unat (region_length r) > unat (InMemoryReadFile_size f)
        then 0 else issued_length f rs)"

fun counted :: "InMemoryReadFile \<Rightarrow> ReadFile_op \<Rightarrow> u64" where
  "counted f (Op_pread offset len buf stats) = len"
| "counted f (Op_pread_owned offset len stats) = len"
| "counted f (Op_preadv offset buffers stats) = of_nat (sum_list (map range_size buffers))"
| "counted f (Op_preadv_regions regions iobufs stats) = issued_length f regions"
| "counted f (Op_preadvAsync offset buffers stats) = of_nat (sum_list (map range_size buffers))"
| "counted f Op_resetBytesRead = 0"

subsection \<open>A class whose synchronous read throws a value that is not an exception\<close>

text \<open>
  Not a class of the header: a class derived from \<open>InMemoryReadFile\<close> that overrides
  \<open>preadv\<close> (offset and buffers) with the body \<open>throw 42;\<close> and inherits
  \<open>preadvAsync\<close>.  It is the input on which the default \<open>preadvAsync\<close> is run with a
  thrown value that its handler does not match.
\<close>

definition throwing_preadv ::
  "InMemoryReadFile \<Rightarrow> u64 \<Rightarrow> CharRange list \<Rightarrow> IoStats option
     \<Rightarrow> (error + u64) \<times> CharRange list \<times> InMemoryReadFile" where
  "throwing_preadv f offset buffers stats = (Inl (NotStdException 42), buffers, f)"

definition ThrowingReadFile_vtable :: "InMemoryReadFile_more ReadFile_vtable" where
  "ThrowingReadFile_vtable = InMemoryReadFile_vtable\<lparr>vt_preadv := Some throwing_preadv\<rparr>"

subsection \<open>class WriteFile\<close>

text \<open>
  An \<open>iovec\<close> is given by the bytes it points to, and the attributes
  (\<open>std::unordered_map<std::string, std::string>\<close>) are a map.  \<open>WriteFile\<close> has no
  data members; the object of a concrete class is the type parameter of the table.
\<close>

type_synonym iovec = string
type_synonym attributes = "string \<rightharpoonup> string"

record 's WriteFile_vtable =
  wt_append :: "'s \<Rightarrow> string \<Rightarrow> error + 's"
  wt_append_IOBuf :: "('s \<Rightarrow> IOBuf \<Rightarrow> error + 's) option"
  wt_write :: "('s \<Rightarrow> iovec list \<Rightarrow> i64 \<Rightarrow> i64 \<Rightarrow> error + 's) option"
  wt_truncate :: "('s \<Rightarrow> i64 \<Rightarrow> error + 's) option"
  wt_flush :: "'s \<Rightarrow> error + 's"
  wt_setAttributes :: "('s \<Rightarrow> attributes \<Rightarrow> error + 's) option"
  wt_getAttributes :: "('s \<Rightarrow> error + attributes) option"
  wt_close :: "'s \<Rightarrow> error + 's"
  wt_size :: "'s \<Rightarrow> error + u64"
  wt_getName :: "('s \<Rightarrow> error + string) option"

text \<open>
  The bodies in the base class (lines 172 to 221).  \<open>__FUNCTION__\<close> is the name of the
  enclosing member function.
\<close>

definition WriteFile_append_IOBuf :: "'s \<Rightarrow> IOBuf \<Rightarrow> error + 's" where
  "WriteFile_append_IOBuf f data = VELOX_NYI ''IOBuf appending is not implemented''"

definition WriteFile_write :: "'s \<Rightarrow> iovec list \<Rightarrow> i64 \<Rightarrow> i64 \<Rightarrow> error + 's" where
  "WriteFile_write f iovecs offset len =
     VELOX_NYI (fmt_format ''{} is not implemented'' ''write'')"

definition WriteFile_truncate :: "'s \<Rightarrow> i64 \<Rightarrow> error + 's" where
  "WriteFile_truncate f newSize =
     VELOX_NYI (fmt_format ''{} is not implemented'' ''truncate'')"

definition WriteFile_setAttributes :: "'s \<Rightarrow> attributes \<Rightarrow> error + 's" where
  "WriteFile_setAttributes f attrs =
     VELOX_NYI (fmt_format ''{} is not implemented'' ''setAttributes'')"

definition WriteFile_getAttributes :: "'s \<Rightarrow> error + attributes" where
  "WriteFile_getAttributes f =
     VELOX_NYI (fmt_format ''{} is not implemented'' ''getAttributes'')"

definition WriteFile_getName :: "'s \<Rightarrow> error + string" where
  "WriteFile_getName f =
     VELOX_NYI (fmt_format ''{} is not implemented'' ''getName'')"

text \<open>Virtual calls on a write file.\<close>

definition wcall_append :: "'s WriteFile_vtable \<Rightarrow> 's \<Rightarrow> string \<Rightarrow> error + 's" where
  "wcall_append vt = wt_append vt"

definition wcall_append_IOBuf :: "'s WriteFile_vtable \<Rightarrow> 's \<Rightarrow> IOBuf \<Rightarrow> error + 's" where
  "wcall_append_IOBuf vt =
     (case wt_append_IOBuf vt of None \<Rightarrow> WriteFile_append_IOBuf | Some impl \<Rightarrow> impl)"

definition wcall_write ::
  "'s WriteFile_vtable \<Rightarrow> 's \<Rightarrow> iovec list \<Rightarrow> i64 \<Rightarrow> i64 \<Rightarrow> error + 's" where
  "wcall_write vt = (case wt_write vt of None \<Rightarrow> WriteFile_write | Some impl \<Rightarrow> impl)"

definition wcall_truncate :: "'s WriteFile_vtable \<Rightarrow> 's \<Rightarrow> i64 \<Rightarrow> error + 's" where
  "wcall_truncate vt =
     (case wt_truncate vt of None \<Rightarrow> WriteFile_truncate | Some impl \<Rightarrow> impl)"

definition wcall_flush :: "'s WriteFile_vtable \<Rightarrow> 's \<Rightarrow> error + 's" where
  "wcall_flush vt = wt_flush vt"

definition wcall_setAttributes :: "'s WriteFile_vtable \<Rightarrow> 's \<Rightarrow> attributes \<Rightarrow> error + 's" where
  "wcall_setAttributes vt =
     (case wt_setAttributes vt of None \<Rightarrow> WriteFile_setAttributes | Some impl \<Rightarrow> impl)"

definition wcall_getAttributes :: "'s WriteFile_vtable \<Rightarrow> 's \<Rightarrow> error + attributes" where
  "wcall_getAttributes vt =
     (case wt_getAttributes vt of None \<Rightarrow> WriteFile_getAttributes | Some impl \<Rightarrow> impl)"

definition wcall_close :: "'s WriteFile_vtable \<Rightarrow> 's \<Rightarrow> error + 's" where
  "wcall_close vt = wt_close vt"

definition wcall_size :: "'s WriteFile_vtable \<Rightarrow> 's \<Rightarrow> error + u64" where
  "wcall_size vt = wt_size vt"

definition wcall_getName :: "'s WriteFile_vtable \<Rightarrow> 's \<Rightarrow> error + string" where
  "wcall_getName vt =
     (case wt_getName vt of None \<Rightarrow> WriteFile_getName | Some impl \<Rightarrow> impl)"

subsection \<open>class InMemoryWriteFile\<close>

text \<open>
  The member \<open>file_\<close> points to a string that the caller owns; the object is given by
  the content of that string.
\<close>

record InMemoryWriteFile =
  file_m :: string

definition InMemoryWriteFile_of :: "string \<Rightarrow> InMemoryWriteFile" where
  "InMemoryWriteFile_of file = \<lparr>file_m = file\<rparr>"

text \<open>\<open>flush\<close> and \<open>close\<close> have empty bodies (lines 286 and 287).\<close>

definition InMemoryWriteFile_flush :: "InMemoryWriteFile \<Rightarrow> error + InMemoryWriteFile" where
  "InMemoryWriteFile_flush f = Inr f"

definition InMemoryWriteFile_close :: "InMemoryWriteFile \<Rightarrow> error + InMemoryWriteFile" where
  "InMemoryWriteFile_close f = Inr f"

text \<open>
  Modelled from the spec: the body of \<open>InMemoryWriteFile::append\<close> is in File.cpp, which
  is not among the sources.  The backing store is a byte sequence grown by appends.
\<close>

definition InMemoryWriteFile_append ::
  "InMemoryWriteFile \<Rightarrow> string \<Rightarrow> error + InMemoryWriteFile" where
  "InMemoryWriteFile_append f data = Inr (f\<lparr>file_m := file_m f @ data\<rparr>)"

text \<open>
  Modelled from the spec: the body of \<open>InMemoryWriteFile::append\<close> (buffer) is in
  File.cpp; the bytes of the buffer are appended.
\<close>

definition InMemoryWriteFile_append_IOBuf ::
  "InMemoryWriteFile \<Rightarrow> IOBuf \<Rightarrow> error + InMemoryWriteFile" where
  "InMemoryWriteFile_append_IOBuf f data = Inr (f\<lparr>file_m := file_m f @ data\<rparr>)"

text \<open>
  Modelled from the spec: the body of \<open>InMemoryWriteFile::size\<close> is in File.cpp; the
  size is what a read of the byte sequence would observe, its length.
\<close>

definition InMemoryWriteFile_size :: "InMemoryWriteFile \<Rightarrow> error + u64" where
  "InMemoryWriteFile_size f = Inr (of_nat (length (file_m f)))"

text \<open>
  The class as declared (lines 280 to 292): it overrides the two \<open>append\<close> overloads,
  \<open>flush\<close>, \<open>close\<close> and \<open>size\<close>, and nothing else.
\<close>

definition InMemoryWriteFile_vtable :: "InMemoryWriteFile WriteFile_vtable" where
  "InMemoryWriteFile_vtable =
     \<lparr>wt_append = InMemoryWriteFile_append,
      wt_append_IOBuf = Some InMemoryWriteFile_append_IOBuf,
      wt_write = None,
      wt_truncate = None,
      wt_flush = InMemoryWriteFile_flush,
      wt_setAttributes = None,
      wt_getAttributes = None,
      wt_close = InMemoryWriteFile_close,
      wt_size = InMemoryWriteFile_size,
      wt_getName = None\<rparr>"

subsection \<open>class LocalWriteFile\<close>

record LocalWriteFile =
  fd_m :: i32
  path_m :: string
  size_m :: u64
  attributes_m :: attributes
  closed_m :: bool

text \<open>
  The object as the default member initialisers (lines 409 to 413) leave it, with the
  path and the descriptor that the constructor obtains.
\<close>

definition LocalWriteFile_init :: "string \<Rightarrow> i32 \<Rightarrow> LocalWriteFile" where
  "LocalWriteFile_init path fd =
     \<lparr>fd_m = fd, path_m = path, size_m = 0, attributes_m = Map.empty, closed_m = False\<rparr>"

text \<open>\<open>size\<close> and \<open>getName\<close> have their bodies in the header (lines 399 to 405).\<close>

definition LocalWriteFile_size :: "LocalWriteFile \<Rightarrow> error + u64" where
  "LocalWriteFile_size f = Inr (size_m f)"

definition LocalWriteFile_getName :: "LocalWriteFile \<Rightarrow> error + string" where
  "LocalWriteFile_getName f = Inr (path_m f)"

text \<open>
  The bodies of the other member functions of \<open>LocalWriteFile\<close> are in File.cpp, which
  is not among the sources; they are modelled from the spec.  The object tracks its
  logical size, updated on every successful append, write and truncate.  \<open>close\<close>
  releases the handle, and a call that needs the handle after that fails with
  \<open>IoError\<close> (handle invalid), as does a negative offset, length or size.  The
  operating system's calls are taken to succeed otherwise.
\<close>

text \<open>Modelled from the spec: \<open>LocalWriteFile::append\<close> adds the length of the data.\<close>

definition LocalWriteFile_append :: "LocalWriteFile \<Rightarrow> string \<Rightarrow> error + LocalWriteFile" where
  "LocalWriteFile_append f data =
     (if closed_m f then Inl IoError
      else Inr (f\<lparr>size_m := size_m f + of_nat (length data)\<rparr>))"

text \<open>
  Modelled from the spec: \<open>LocalWriteFile::append\<close> (buffer) adds the length of the
  buffer's data.
\<close>

definition LocalWriteFile_append_IOBuf :: "LocalWriteFile \<Rightarrow> IOBuf \<Rightarrow> error + LocalWriteFile" where
  "LocalWriteFile_append_IOBuf f data =
     (if closed_m f then Inl IoError
      else Inr (f\<lparr>size_m := size_m f + of_nat (length data)\<rparr>))"

text \<open>
  Modelled from the spec: \<open>LocalWriteFile::write\<close> overwrites the range of \<open>length\<close>
  bytes at \<open>offset\<close> and extends the size to the end of that range if it lies beyond
  the current size.
\<close>

definition LocalWriteFile_write ::
  "LocalWriteFile \<Rightarrow> iovec list \<Rightarrow> i64 \<Rightarrow> i64 \<Rightarrow> error + LocalWriteFile" where
  "LocalWriteFile_write f iovecs offset len =
     (if closed_m f \<or> sint offset < 0 \<or> sint len < 0 then Inl IoError
      else Inr (f\<lparr>size_m := max (size_m f) (offset + len)\<rparr>))"

text \<open>Modelled from the spec: \<open>LocalWriteFile::truncate\<close> sets the new size.\<close>

definition LocalWriteFile_truncate :: "LocalWriteFile \<Rightarrow> i64 \<Rightarrow> error + LocalWriteFile" where
  "LocalWriteFile_truncate f newSize =
     (if closed_m f \<or> sint newSize < 0 then Inl IoError
      else Inr (f\<lparr>size_m := newSize\<rparr>))"

text \<open>Modelled from the spec: \<open>LocalWriteFile::flush\<close> leaves the members as they are.\<close>

definition LocalWriteFile_flush :: "LocalWriteFile \<Rightarrow> error + LocalWriteFile" where
  "LocalWriteFile_flush f = (if closed_m f then Inl IoError else Inr f)"

text \<open>Modelled from the spec: \<open>LocalWriteFile::setAttributes\<close> stores the attributes.\<close>

definition LocalWriteFile_setAttributes ::
  "LocalWriteFile \<Rightarrow> attributes \<Rightarrow> error + LocalWriteFile" where
  "LocalWriteFile_setAttributes f attrs = Inr (f\<lparr>attributes_m := attrs\<rparr>)"

text \<open>Modelled from the spec: \<open>LocalWriteFile::getAttributes\<close> returns them.\<close>

definition LocalWriteFile_getAttributes :: "LocalWriteFile \<Rightarrow> error + attributes" where
  "LocalWriteFile_getAttributes f = Inr (attributes_m f)"

text \<open>Modelled from the spec: \<open>LocalWriteFile::close\<close> releases the handle.\<close>

definition LocalWriteFile_close :: "LocalWriteFile \<Rightarrow> error + LocalWriteFile" where
  "LocalWriteFile_close f = Inr (f\<lparr>closed_m := True\<rparr>)"

text \<open>The class as declared (lines 358 to 414): it overrides every member function.\<close>

definition LocalWriteFile_vtable :: "LocalWriteFile WriteFile_vtable" where
  "LocalWriteFile_vtable =
     \<lparr>wt_append = LocalWriteFile_append,
      wt_append_IOBuf = Some LocalWriteFile_append_IOBuf,
      wt_write = Some LocalWriteFile_write,
      wt_truncate = Some LocalWriteFile_truncate,
      wt_flush = LocalWriteFile_flush,
      wt_setAttributes = Some LocalWriteFile_setAttributes,
      wt_getAttributes = Some LocalWriteFile_getAttributes,
      wt_close = LocalWriteFile_close,
      wt_size = LocalWriteFile_size,
      wt_getName = Some LocalWriteFile_getName\<rparr>"

subsection \<open>Sequences of calls on a write file\<close>

text \<open>
  The calls a client makes on a write file before it closes it.  A call that raises
  leaves the object as it was.
\<close>

datatype WriteFile_op =
    W_append string
  | W_append_IOBuf IOBuf
  | W_write "iovec list" i64 i64
  | W_truncate i64
  | W_flush
  | W_setAttributes attributes

definition state_after :: "'s \<Rightarrow> error + 's \<Rightarrow> 's" where
  "state_after f r = (case r of Inl e \<Rightarrow> f | Inr f' \<Rightarrow> f')"

fun WriteFile_step :: "'s WriteFile_vtable \<Rightarrow> 's \<Rightarrow> WriteFile_op \<Rightarrow> 's" where
  "WriteFile_step vt f (W_append data) = state_after f (wcall_append vt f data)"
| "WriteFile_step vt f (W_append_IOBuf data) = state_after f (wcall_append_IOBuf vt f data)"
| "WriteFile_step vt f (W_write iovecs offset len) =
     state_after f (wcall_write vt f iovecs offset len)"
| "WriteFile_step vt f (W_truncate newSize) = state_after f (wcall_truncate vt f newSize)"
| "WriteFile_step vt f W_flush = state_after f (wcall_flush vt f)"
| "WriteFile_step vt f (W_setAttributes attrs) = state_after f (wcall_setAttributes vt f attrs)"

definition WriteFile_run :: "'s WriteFile_vtable \<Rightarrow> 's \<Rightarrow> WriteFile_op list \<Rightarrow> 's" where
  "WriteFile_run vt f ops = foldl (WriteFile_step vt) f ops"

text \<open>\<open>close()\<close> and then \<open>size()\<close>; the result of \<open>size()\<close>, or the error of \<open>close()\<close>.\<close>

definition size_after_close :: "'s WriteFile_vtable \<Rightarrow> 's \<Rightarrow> error + u64" where
  "size_after_close vt f =
     (case wcall_close vt f of Inl e \<Rightarrow> Inl e | Inr f' \<Rightarrow> wcall_size vt f')"

fun is_flush :: "WriteFile_op \<Rightarrow> bool" where
  "is_flush W_flush = True"
| "is_flush _ = False"

text \<open>
  The logical size after a sequence of calls.  In memory it is the size of the string at
  the start plus the bytes appended; the positional write, the truncation and the
  attributes are not implemented there and change nothing.  On the local disk a
  successful truncation or positional write sets it as well.
\<close>

fun appended_bytes :: "WriteFile_op list \<Rightarrow> nat" where
  "appended_bytes [] = 0"
| "appended_bytes (W_append data # ops) = length data + appended_bytes ops"
| "appended_bytes (W_append_IOBuf data # ops) = length data + appended_bytes ops"
| "appended_bytes (_ # ops) = appended_bytes ops"

fun logical_size :: "u64 \<Rightarrow> WriteFile_op list \<Rightarrow> u64" where
  "logical_size n [] = n"
| "logical_size n (W_append data # ops) = logical_size (n + of_nat (length data)) ops"
| "logical_size n (W_append_IOBuf data # ops) = logical_size (n + of_nat (length data)) ops"
| "logical_size n (W_write iovecs offset len # ops) =
     logical_size (if sint offset < 0 \<or> sint len < 0 then n else max n (offset + len)) ops"
| "logical_size n (W_truncate newSize # ops) =
     logical_size (if sint newSize < 0 then n else newSize) ops"
| "logical_size n (_ # ops) = logical_size n ops"

section \<open>Properties\<close>

subsection \<open>What a call does to an in-memory read file\<close>

lemma InMemoryReadFile_vtable_slots:
  "vt_pread InMemoryReadFile_vtable = InMemoryReadFile_pread"
  "vt_pread_owned InMemoryReadFile_vtable = Some InMemoryReadFile_pread_owned"
  "vt_preadv InMemoryReadFile_vtable = None"
  "vt_preadv_regions InMemoryReadFile_vtable = None"
  "vt_preadvAsync InMemoryReadFile_vtable = None"
  "vt_hasPreadvAsync InMemoryReadFile_vtable = None"
  "vt_shouldCoalesce InMemoryReadFile_vtable = InMemoryReadFile_shouldCoalesce"
  "vt_size InMemoryReadFile_vtable = InMemoryReadFile_size"
  "vt_bytesRead InMemoryReadFile_vtable = None"
  "vt_resetBytesRead InMemoryReadFile_vtable = None"
  by (simp_all add: InMemoryReadFile_vtable_def)

lemma InMemoryReadFile_pread_state:
  "snd (snd (InMemoryReadFile_pread f offset len buf stats)) = f\<lparr>bytesRead_m := bytesRead_m f + len\<rparr>"
  by (simp add: InMemoryReadFile_pread_def Let_def)

lemma InMemoryReadFile_pread_result:
  "fst (InMemoryReadFile_pread f offset len buf stats) =
     (if unat offset + unat len > unat (InMemoryReadFile_size f) then Inl OutOfRange
      else Inr (0, unat len))"
  by (simp add: InMemoryReadFile_pread_def Let_def)

lemma InMemoryReadFile_size_counter [simp]:
  "InMemoryReadFile_size (f\<lparr>bytesRead_m := c\<rparr>) = InMemoryReadFile_size f"
  by (simp add: InMemoryReadFile_size_def)

lemma issued_length_counter [simp]:
  "issued_length (f\<lparr>bytesRead_m := c\<rparr>) rs = issued_length f rs"
  by (induction rs) simp_all

lemma preadv_regions_loop_state:
  "snd (snd (preadv_regions_loop InMemoryReadFile_vtable f rs i iobufs n stats)) =
     f\<lparr>bytesRead_m := bytesRead_m f + issued_length f rs\<rparr>"
proof (induction rs arbitrary: f i iobufs n)
  case Nil
  show ?case by simp
next
  case (Cons r rs)
  obtain res buf f' where p:
    "InMemoryReadFile_pread f (region_offset r) (region_length r)
       (fresh_buffer (unat (region_length r))) stats = (res, buf, f')"
    by (metis prod_cases3)
  have f': "f' = f\<lparr>bytesRead_m := bytesRead_m f + region_length r\<rparr>"
    using InMemoryReadFile_pread_state [of f "region_offset r" "region_length r"
        "fresh_buffer (unat (region_length r))" stats] p by simp
  have res: "res = (if unat (region_offset r) + unat (region_length r) > unat (InMemoryReadFile_size f)
                    then Inl OutOfRange else Inr (0, unat (region_length r)))"
    using InMemoryReadFile_pread_result [of f "region_offset r" "region_length r"
        "fresh_buffer (unat (region_length r))" stats] p by simp
  show ?case
  proof (cases "unat (region_offset r) + unat (region_length r) > unat (InMemoryReadFile_size f)")
    case True
    then show ?thesis
      using p res f' by (simp add: call_pread_def InMemoryReadFile_vtable_slots)
  next
    case False
    then show ?thesis
      using p res f' Cons.IH [of f']
      by (simp add: call_pread_def InMemoryReadFile_vtable_slots add.assoc)
  qed
qed

lemma ReadFile_preadv_state:
  "snd (snd (ReadFile_preadv InMemoryReadFile_vtable f offset buffers stats)) =
     f\<lparr>bytesRead_m := bytesRead_m f + of_nat (sum_list (map range_size buffers))\<rparr>"
proof -
  let ?n = "sum_list (map range_size buffers)"
  obtain res buf f' where p:
    "InMemoryReadFile_pread f offset (of_nat ?n) (fresh_buffer ?n) stats = (res, buf, f')"
    by (metis prod_cases3)
  have "f' = f\<lparr>bytesRead_m := bytesRead_m f + of_nat ?n\<rparr>"
    using InMemoryReadFile_pread_state [of f offset "of_nat ?n" "fresh_buffer ?n" stats] p
    by simp
  then show ?thesis
    using p by (cases res)
      (simp_all add: ReadFile_preadv_def call_pread_def InMemoryReadFile_vtable_slots Let_def)
qed

lemma InMemoryReadFile_pread_owned_state:
  "snd (InMemoryReadFile_pread_owned f offset len stats) = f\<lparr>bytesRead_m := bytesRead_m f + len\<rparr>"
proof -
  obtain res buf f' where p:
    "InMemoryReadFile_pread f offset len (fresh_buffer (unat len)) stats = (res, buf, f')"
    by (metis prod_cases3)
  have "f' = f\<lparr>bytesRead_m := bytesRead_m f + len\<rparr>"
    using InMemoryReadFile_pread_state [of f offset len "fresh_buffer (unat len)" stats] p
    by simp
  then show ?thesis
    using p by (cases res) (simp_all add: InMemoryReadFile_pread_owned_def)
qed

lemma ReadFile_preadvAsync_state:
  "snd (snd (ReadFile_preadvAsync InMemoryReadFile_vtable f offset buffers stats)) =
     f\<lparr>bytesRead_m := bytesRead_m f + of_nat (sum_list (map range_size buffers))\<rparr>"
proof -
  obtain res bufs f' where p:
    "ReadFile_preadv InMemoryReadFile_vtable f offset buffers stats = (res, bufs, f')"
    by (metis prod_cases3)
  have "f' = f\<lparr>bytesRead_m := bytesRead_m f + of_nat (sum_list (map range_size buffers))\<rparr>"
    using ReadFile_preadv_state [of f offset buffers stats] p by simp
  then show ?thesis
    using p by (cases res)
      (simp_all add: ReadFile_preadvAsync_def call_preadv_def InMemoryReadFile_vtable_slots)
qed

lemma InMemoryReadFile_read_step:
  "is_read op \<Longrightarrow>
     ReadFile_step InMemoryReadFile_vtable f op = f\<lparr>bytesRead_m := bytesRead_m f + counted f op\<rparr>"
proof (cases op)
  case (Op_pread offset len buf stats)
  then show ?thesis
    by (simp add: call_pread_def InMemoryReadFile_vtable_slots InMemoryReadFile_pread_state)
next
  case (Op_pread_owned offset len stats)
  then show ?thesis
    by (simp add: call_pread_owned_def InMemoryReadFile_vtable_slots
        InMemoryReadFile_pread_owned_state)
next
  case (Op_preadv offset buffers stats)
  then show ?thesis
    by (simp add: call_preadv_def InMemoryReadFile_vtable_slots ReadFile_preadv_state)
next
  case (Op_preadv_regions regions iobufs stats)
  then show ?thesis
    by (simp add: call_preadv_regions_def InMemoryReadFile_vtable_slots
        ReadFile_preadv_regions_def preadv_regions_loop_state)
next
  case (Op_preadvAsync offset buffers stats)
  then show ?thesis
    by (simp add: call_preadvAsync_def InMemoryReadFile_vtable_slots ReadFile_preadvAsync_state)
next
  case Op_resetBytesRead
  assume "is_read op"
  with Op_resetBytesRead show ?thesis by simp
qed

lemma ReadFile_step_shouldCoalesce:
  "shouldCoalesce_m (ReadFile_step InMemoryReadFile_vtable f op) = shouldCoalesce_m f"
proof (cases "is_read op")
  case True
  then show ?thesis by (simp add: InMemoryReadFile_read_step)
next
  case False
  then have "op = Op_resetBytesRead" by (cases op) simp_all
  then show ?thesis
    by (simp add: call_resetBytesRead_def InMemoryReadFile_vtable_slots ReadFile_resetBytesRead_def)
qed

lemma InMemoryReadFile_run_shouldCoalesce:
  "shouldCoalesce_m (InMemoryReadFile_run f ops) = last_setShouldCoalesce (shouldCoalesce_m f) ops"
  unfolding InMemoryReadFile_run_def
proof (induction ops arbitrary: f)
  case Nil
  show ?case by simp
next
  case (Cons op ops)
  show ?case
  proof (cases op)
    case (Op_ReadFile r)
    then show ?thesis using Cons.IH [of "InMemoryReadFile_step f op"]
      by (simp add: ReadFile_step_shouldCoalesce)
  next
    case (Op_setShouldCoalesce b)
    then show ?thesis using Cons.IH [of "InMemoryReadFile_step f op"]
      by (simp add: setShouldCoalesce_def)
  qed
qed

lemma last_setShouldCoalesce_False:
  "\<not> b \<Longrightarrow> Op_setShouldCoalesce True \<notin> set ops \<Longrightarrow> \<not> last_setShouldCoalesce b ops"
  by (induction b ops rule: last_setShouldCoalesce.induct) auto

subsection \<open>The default asynchronous read\<close>

text \<open>
  C2, as stated, fails: the handler catches \<open>std::exception\<close> only.  On a class that
  inherits \<open>preadvAsync\<close> and whose \<open>preadv\<close> throws a value of another type
  (\<open>throw 42\<close>), the value leaves \<open>preadvAsync\<close>, which returns no future.
\<close>

theorem preadvAsync_never_throws_counterexample:
  "vt_preadvAsync ThrowingReadFile_vtable = None
   \<and> call_preadv ThrowingReadFile_vtable (InMemoryReadFile_of_view ''abc'') 0 [MemRange ''xx''] None
     = (Inl (NotStdException 42), [MemRange ''xx''], InMemoryReadFile_of_view ''abc'')
   \<and> call_preadvAsync ThrowingReadFile_vtable (InMemoryReadFile_of_view ''abc'') 0 [MemRange ''xx''] None
     = (Inl (NotStdException 42), [MemRange ''xx''], InMemoryReadFile_of_view ''abc'')"
  by (simp add: call_preadvAsync_def call_preadv_def ReadFile_preadvAsync_def
      ThrowingReadFile_vtable_def throwing_preadv_def InMemoryReadFile_vtable_def)

text \<open>
  C2, amended.  For a class that inherits \<open>ReadFile::preadvAsync\<close>: whenever the
  synchronous \<open>preadv\<close> raises an exception derived from \<open>std::exception\<close>, as every
  Velox error is, the call does not raise and returns the failed future that
  \<open>folly::makeSemiFuture\<close> makes from this exception, with the same effect on the
  buffers and on the file object; a thrown value of any other type is not caught and
  leaves the call.  So the call raises exactly if \<open>preadv\<close> throws a value that is not
  derived from \<open>std::exception\<close>.
\<close>

theorem preadvAsync_catches_std_exception:
  assumes "vt_preadvAsync vt = None"
  shows "(call_preadv vt f offset buffers stats = (Inl e, buffers', f') \<and> is_std_exception e
            \<longrightarrow> call_preadvAsync vt f offset buffers stats
                  = (Inr (FutureException (FromStdException e)), buffers', f'))
         \<and> (call_preadv vt f offset buffers stats = (Inl e, buffers', f') \<and> \<not> is_std_exception e
            \<longrightarrow> call_preadvAsync vt f offset buffers stats = (Inl e, buffers', f'))
         \<and> ((\<exists>x. fst (call_preadvAsync vt f offset buffers stats) = Inl x)
            \<longleftrightarrow> (\<exists>x. fst (call_preadv vt f offset buffers stats) = Inl x
                      \<and> \<not> is_std_exception x))"
proof -
  obtain res bufs g where p: "call_preadv vt f offset buffers stats = (res, bufs, g)"
    by (metis prod_cases3)
  have dflt: "call_preadvAsync vt = ReadFile_preadvAsync vt"
    using assms by (simp add: call_preadvAsync_def)
  show ?thesis
  proof (cases res)
    case (Inl x)
    then show ?thesis
      using p by (cases "is_std_exception x") (simp_all add: dflt ReadFile_preadvAsync_def)
  next
    case (Inr n)
    then show ?thesis
      using p by (simp add: dflt ReadFile_preadvAsync_def)
  qed
qed

theorem preadvAsync_catches_std_exception_witness:
  "vt_preadvAsync InMemoryReadFile_vtable = None
   \<and> call_preadv InMemoryReadFile_vtable (InMemoryReadFile_of_view ''abc'') 5 [MemRange ''xx''] None
     = (Inl OutOfRange, [MemRange ''xx''], (InMemoryReadFile_of_view ''abc'')\<lparr>bytesRead_m := 2\<rparr>)
   \<and> is_std_exception OutOfRange
   \<and> call_preadvAsync InMemoryReadFile_vtable (InMemoryReadFile_of_view ''abc'') 5 [MemRange ''xx''] None
     = (Inr (FutureException (FromStdException OutOfRange)), [MemRange ''xx''],
        (InMemoryReadFile_of_view ''abc'')\<lparr>bytesRead_m := 2\<rparr>)
   \<and> vt_preadvAsync ThrowingReadFile_vtable = None
   \<and> call_preadv ThrowingReadFile_vtable (InMemoryReadFile_of_view ''abc'') 0 [MemRange ''xx''] None
     = (Inl (NotStdException 42), [MemRange ''xx''], InMemoryReadFile_of_view ''abc'')
   \<and> \<not> is_std_exception (NotStdException 42)
   \<and> call_preadvAsync ThrowingReadFile_vtable (InMemoryReadFile_of_view ''abc'') 0 [MemRange ''xx''] None
     = (Inl (NotStdException 42), [MemRange ''xx''], InMemoryReadFile_of_view ''abc'')"
proof -
  let ?f = "InMemoryReadFile_of_view ''abc''"
  let ?t = ThrowingReadFile_vtable
  have slot: "vt_preadvAsync InMemoryReadFile_vtable = None"
    by (simp add: InMemoryReadFile_vtable_slots)
  have sync: "call_preadv InMemoryReadFile_vtable ?f 5 [MemRange ''xx''] None
     = (Inl OutOfRange, [MemRange ''xx''], ?f\<lparr>bytesRead_m := 2\<rparr>)"
    by (simp add: call_preadv_def call_pread_def InMemoryReadFile_vtable_slots ReadFile_preadv_def
        InMemoryReadFile_pread_def InMemoryReadFile_size_def InMemoryReadFile_of_view_def Let_def)
  have slot': "vt_preadvAsync ?t = None"
    by (simp add: ThrowingReadFile_vtable_def InMemoryReadFile_vtable_slots)
  have sync': "call_preadv ?t ?f 0 [MemRange ''xx''] None
     = (Inl (NotStdException 42), [MemRange ''xx''], ?f)"
    by (simp add: call_preadv_def ThrowingReadFile_vtable_def throwing_preadv_def)
  show ?thesis
    using slot sync slot' sync'
      preadvAsync_catches_std_exception [OF slot,
        where f = ?f and offset = 5 and buffers = "[MemRange ''xx'']" and stats = None
          and e = OutOfRange and buffers' = "[MemRange ''xx'']"
          and f' = "?f\<lparr>bytesRead_m := 2\<rparr>"]
      preadvAsync_catches_std_exception [OF slot',
        where f = ?f and offset = 0 and buffers = "[MemRange ''xx'']" and stats = None
          and e = "NotStdException 42" and buffers' = "[MemRange ''xx'']" and f' = ?f]
    by simp
qed

text \<open>
  C3.  For a class that inherits \<open>ReadFile::preadvAsync\<close>: whenever the synchronous
  \<open>preadv\<close> returns a value on an input, the future returned on the same input is
  completed with that value, with the same effect on the buffers and on the file object.
\<close>

theorem preadvAsync_resolves_to_preadv_value:
  assumes "vt_preadvAsync vt = None"
      and "call_preadv vt f offset buffers stats = (Inr n, buffers', f')"
  shows "call_preadvAsync vt f offset buffers stats = (Inr (FutureValue n), buffers', f')"
  using assms by (simp add: call_preadvAsync_def ReadFile_preadvAsync_def)

theorem preadvAsync_resolves_to_preadv_value_witness:
  "vt_preadvAsync InMemoryReadFile_vtable = None \<and>
   call_preadv InMemoryReadFile_vtable (InMemoryReadFile_of_view ''hello world'') 6
       [MemRange ''.....''] None
     = (Inr 5, [MemRange ''world''], (InMemoryReadFile_of_view ''hello world'')\<lparr>bytesRead_m := 5\<rparr>) \<and>
   call_preadvAsync InMemoryReadFile_vtable (InMemoryReadFile_of_view ''hello world'') 6
       [MemRange ''.....''] None
     = (Inr (FutureValue 5), [MemRange ''world''],
        (InMemoryReadFile_of_view ''hello world'')\<lparr>bytesRead_m := 5\<rparr>)"
proof -
  have slot: "vt_preadvAsync InMemoryReadFile_vtable = None"
    by (simp add: InMemoryReadFile_vtable_slots)
  have sync: "call_preadv InMemoryReadFile_vtable (InMemoryReadFile_of_view ''hello world'') 6
       [MemRange ''.....''] None
     = (Inr 5, [MemRange ''world''], (InMemoryReadFile_of_view ''hello world'')\<lparr>bytesRead_m := 5\<rparr>)"
    by (simp add: call_preadv_def call_pread_def InMemoryReadFile_vtable_slots ReadFile_preadv_def
        InMemoryReadFile_pread_def InMemoryReadFile_size_def InMemoryReadFile_of_view_def Let_def
        view_bytes_def fresh_buffer_def file_bytes_def)
  show ?thesis
    using slot sync preadvAsync_resolves_to_preadv_value [OF slot sync] by simp
qed

subsection \<open>Coalescing of an in-memory read file\<close>

text \<open>
  C4, as stated, fails: \<open>setShouldCoalesce(true)\<close> on a new in-memory file makes
  \<open>shouldCoalesce()\<close> return true.
\<close>

theorem shouldCoalesce_always_false_counterexample:
  "call_shouldCoalesce InMemoryReadFile_vtable
     (InMemoryReadFile_run (InMemoryReadFile_of_view ''abc'') [Op_setShouldCoalesce True]) = True"
  by (simp add: call_shouldCoalesce_def InMemoryReadFile_vtable_slots
      InMemoryReadFile_shouldCoalesce_def InMemoryReadFile_run_def setShouldCoalesce_def)

text \<open>
  C4, amended.  After any sequence of calls on a newly constructed \<open>InMemoryReadFile\<close>,
  \<open>shouldCoalesce()\<close> returns the argument of the last \<open>setShouldCoalesce\<close> call,
  and false if there was none; in particular it returns false in every state reached
  without a call of \<open>setShouldCoalesce(true)\<close>.
\<close>

theorem shouldCoalesce_is_last_setting:
  "call_shouldCoalesce InMemoryReadFile_vtable
     (InMemoryReadFile_run (InMemoryReadFile_of_view file) ops) = last_setShouldCoalesce False ops
   \<and> call_shouldCoalesce InMemoryReadFile_vtable
     (InMemoryReadFile_run (InMemoryReadFile_of_string file) ops) = last_setShouldCoalesce False ops
   \<and> (Op_setShouldCoalesce True \<notin> set ops \<longrightarrow>
        \<not> call_shouldCoalesce InMemoryReadFile_vtable
            (InMemoryReadFile_run (InMemoryReadFile_of_view file) ops)
      \<and> \<not> call_shouldCoalesce InMemoryReadFile_vtable
            (InMemoryReadFile_run (InMemoryReadFile_of_string file) ops))"
proof -
  have call: "call_shouldCoalesce InMemoryReadFile_vtable (InMemoryReadFile_run f ops) =
                last_setShouldCoalesce (shouldCoalesce_m f) ops" for f
    by (simp add: call_shouldCoalesce_def InMemoryReadFile_vtable_slots
        InMemoryReadFile_shouldCoalesce_def InMemoryReadFile_run_shouldCoalesce)
  have v: "shouldCoalesce_m (InMemoryReadFile_of_view file) = False"
    by (simp add: InMemoryReadFile_of_view_def)
  have s: "shouldCoalesce_m (InMemoryReadFile_of_string file) = False"
    by (simp add: InMemoryReadFile_of_string_def)
  have never: "Op_setShouldCoalesce True \<notin> set ops \<Longrightarrow> \<not> last_setShouldCoalesce False ops"
    by (rule last_setShouldCoalesce_False) simp_all
  show ?thesis
    using never by (simp add: call v s)
qed

theorem shouldCoalesce_is_last_setting_witness:
  "Op_setShouldCoalesce True \<notin>
     set [Op_ReadFile (Op_pread 0 1 ''x'' None), Op_setShouldCoalesce False,
          Op_ReadFile Op_resetBytesRead]
   \<and> \<not> call_shouldCoalesce InMemoryReadFile_vtable
        (InMemoryReadFile_run (InMemoryReadFile_of_view ''abc'')
           [Op_ReadFile (Op_pread 0 1 ''x'' None), Op_setShouldCoalesce False,
            Op_ReadFile Op_resetBytesRead])
   \<and> call_shouldCoalesce InMemoryReadFile_vtable
        (InMemoryReadFile_run (InMemoryReadFile_of_view ''abc'')
           [Op_setShouldCoalesce True, Op_ReadFile (Op_pread 0 1 ''x'' None)])"
  using shouldCoalesce_is_last_setting [of "''abc''"
      "[Op_ReadFile (Op_pread 0 1 ''x'' None), Op_setShouldCoalesce False,
        Op_ReadFile Op_resetBytesRead]"]
    shouldCoalesce_is_last_setting [of "''abc''"
      "[Op_setShouldCoalesce True, Op_ReadFile (Op_pread 0 1 ''x'' None)]"]
  by simp

subsection \<open>Whether the asynchronous read is asynchronous\<close>

text \<open>
  C8.  \<open>hasPreadvAsync()\<close> returns false on every object whose class does not override
  it, and on a \<open>LocalReadFile\<close> it returns true exactly if \<open>executor_\<close> is not
  null, that is, exactly if the file was constructed with an executor that is not null.
\<close>

theorem hasPreadvAsync_default_false_local_iff_executor:
  "(vt_hasPreadvAsync vt = None \<longrightarrow> \<not> call_hasPreadvAsync vt f)
   \<and> (call_hasPreadvAsync (LocalReadFile_vtable p s pv pa mu) g \<longleftrightarrow> executor_m g \<noteq> None)
   \<and> (call_hasPreadvAsync (LocalReadFile_vtable p s pv pa mu)
         (LocalReadFile_of_path path executor bufferIo fd sz) \<longleftrightarrow> executor \<noteq> None)
   \<and> (call_hasPreadvAsync (LocalReadFile_vtable p s pv pa mu)
         (LocalReadFile_of_fd fd executor sz) \<longleftrightarrow> executor \<noteq> None)"
  by (simp add: call_hasPreadvAsync_def ReadFile_hasPreadvAsync_def LocalReadFile_vtable_def
      LocalReadFile_hasPreadvAsync_def LocalReadFile_of_path_def LocalReadFile_of_fd_def)

theorem hasPreadvAsync_default_false_local_iff_executor_witness:
  "vt_hasPreadvAsync InMemoryReadFile_vtable = None
   \<and> \<not> call_hasPreadvAsync InMemoryReadFile_vtable (InMemoryReadFile_of_view ''abc'')
   \<and> call_hasPreadvAsync
        (LocalReadFile_vtable (\<lambda>f offset len buf stats. (Inl IoError, buf, f)) (\<lambda>f. 11)
           (\<lambda>f offset buffers stats. (Inl IoError, buffers, f))
           (\<lambda>f offset buffers stats. (Inr (FutureException (FromStdException IoError)), buffers, f)) (\<lambda>f. 0))
        (LocalReadFile_of_path ''/tmp/data'' (Some 1) True 3 11)
   \<and> \<not> call_hasPreadvAsync
        (LocalReadFile_vtable (\<lambda>f offset len buf stats. (Inl IoError, buf, f)) (\<lambda>f. 11)
           (\<lambda>f offset buffers stats. (Inl IoError, buffers, f))
           (\<lambda>f offset buffers stats. (Inr (FutureException (FromStdException IoError)), buffers, f)) (\<lambda>f. 0))
        (LocalReadFile_of_fd 3 None 11)"
  using hasPreadvAsync_default_false_local_iff_executor
      [where vt = InMemoryReadFile_vtable and f = "InMemoryReadFile_of_view ''abc''"
         and p = "\<lambda>f offset len buf stats. (Inl IoError, buf, f)" and s = "\<lambda>f. 11"
         and pv = "\<lambda>f offset buffers stats. (Inl IoError, buffers, f)"
         and pa = "\<lambda>f offset buffers stats. (Inr (FutureException (FromStdException IoError)), buffers, f)"
         and mu = "\<lambda>f. 0" and path = "''/tmp/data''" and executor = "Some 1"
         and bufferIo = True and fd = 3 and sz = 11
         and g = "LocalReadFile_of_fd 3 None 11"]
    hasPreadvAsync_default_false_local_iff_executor
      [where vt = InMemoryReadFile_vtable and f = "InMemoryReadFile_of_view ''abc''"
         and p = "\<lambda>f offset len buf stats. (Inl IoError, buf, f)" and s = "\<lambda>f. 11"
         and pv = "\<lambda>f offset buffers stats. (Inl IoError, buffers, f)"
         and pa = "\<lambda>f offset buffers stats. (Inr (FutureException (FromStdException IoError)), buffers, f)"
         and mu = "\<lambda>f. 0" and path = "''/tmp/data''" and executor = None
         and bufferIo = True and fd = 3 and sz = 11
         and g = "LocalReadFile_of_fd 3 None 11"]
  by (simp add: InMemoryReadFile_vtable_slots LocalReadFile_of_fd_def)

subsection \<open>The optional operations of a write file\<close>

lemma InMemoryWriteFile_vtable_slots:
  "wt_append InMemoryWriteFile_vtable = InMemoryWriteFile_append"
  "wt_append_IOBuf InMemoryWriteFile_vtable = Some InMemoryWriteFile_append_IOBuf"
  "wt_write InMemoryWriteFile_vtable = None"
  "wt_truncate InMemoryWriteFile_vtable = None"
  "wt_flush InMemoryWriteFile_vtable = InMemoryWriteFile_flush"
  "wt_setAttributes InMemoryWriteFile_vtable = None"
  "wt_getAttributes InMemoryWriteFile_vtable = None"
  "wt_close InMemoryWriteFile_vtable = InMemoryWriteFile_close"
  "wt_size InMemoryWriteFile_vtable = InMemoryWriteFile_size"
  "wt_getName InMemoryWriteFile_vtable = None"
  by (simp_all add: InMemoryWriteFile_vtable_def)

lemma LocalWriteFile_vtable_slots:
  "wt_append LocalWriteFile_vtable = LocalWriteFile_append"
  "wt_append_IOBuf LocalWriteFile_vtable = Some LocalWriteFile_append_IOBuf"
  "wt_write LocalWriteFile_vtable = Some LocalWriteFile_write"
  "wt_truncate LocalWriteFile_vtable = Some LocalWriteFile_truncate"
  "wt_flush LocalWriteFile_vtable = LocalWriteFile_flush"
  "wt_setAttributes LocalWriteFile_vtable = Some LocalWriteFile_setAttributes"
  "wt_getAttributes LocalWriteFile_vtable = Some LocalWriteFile_getAttributes"
  "wt_close LocalWriteFile_vtable = LocalWriteFile_close"
  "wt_size LocalWriteFile_vtable = LocalWriteFile_size"
  "wt_getName LocalWriteFile_vtable = Some LocalWriteFile_getName"
  by (simp_all add: LocalWriteFile_vtable_def)

text \<open>
  C6.  On an object whose class does not override them, \<open>append\<close> of a buffer,
  \<open>write\<close>, \<open>truncate\<close>, \<open>setAttributes\<close> and \<open>getAttributes\<close> each raise
  the \<open>NotImplemented\<close> error; none of them returns normally.
\<close>

theorem WriteFile_defaults_not_implemented:
  "(wt_append_IOBuf vt = None \<longrightarrow>
      wcall_append_IOBuf vt f data = Inl (NotImplemented ''IOBuf appending is not implemented''))
   \<and> (wt_write vt = None \<longrightarrow>
      wcall_write vt f iovecs offset len = Inl (NotImplemented ''write is not implemented''))
   \<and> (wt_truncate vt = None \<longrightarrow>
      wcall_truncate vt f newSize = Inl (NotImplemented ''truncate is not implemented''))
   \<and> (wt_setAttributes vt = None \<longrightarrow>
      wcall_setAttributes vt f attrs = Inl (NotImplemented ''setAttributes is not implemented''))
   \<and> (wt_getAttributes vt = None \<longrightarrow>
      wcall_getAttributes vt f = Inl (NotImplemented ''getAttributes is not implemented''))"
proof -
  have a: "wt_append_IOBuf vt = None \<Longrightarrow>
      wcall_append_IOBuf vt f data = Inl (NotImplemented ''IOBuf appending is not implemented'')"
    by (simp add: wcall_append_IOBuf_def WriteFile_append_IOBuf_def VELOX_NYI_def)
  have w: "wt_write vt = None \<Longrightarrow>
      wcall_write vt f iovecs offset len = Inl (NotImplemented ''write is not implemented'')"
    by (simp add: wcall_write_def WriteFile_write_def VELOX_NYI_def)
  have t: "wt_truncate vt = None \<Longrightarrow>
      wcall_truncate vt f newSize = Inl (NotImplemented ''truncate is not implemented'')"
    by (simp add: wcall_truncate_def WriteFile_truncate_def VELOX_NYI_def)
  have s: "wt_setAttributes vt = None \<Longrightarrow>
      wcall_setAttributes vt f attrs = Inl (NotImplemented ''setAttributes is not implemented'')"
    by (simp add: wcall_setAttributes_def WriteFile_setAttributes_def VELOX_NYI_def)
  have g: "wt_getAttributes vt = None \<Longrightarrow>
      wcall_getAttributes vt f = Inl (NotImplemented ''getAttributes is not implemented'')"
    by (simp add: wcall_getAttributes_def WriteFile_getAttributes_def VELOX_NYI_def)
  from a w t s g show ?thesis by blast
qed

theorem WriteFile_defaults_not_implemented_witness:
  "wt_append_IOBuf (InMemoryWriteFile_vtable\<lparr>wt_append_IOBuf := None\<rparr>) = None
   \<and> wt_write (InMemoryWriteFile_vtable\<lparr>wt_append_IOBuf := None\<rparr>) = None
   \<and> wt_truncate (InMemoryWriteFile_vtable\<lparr>wt_append_IOBuf := None\<rparr>) = None
   \<and> wt_setAttributes (InMemoryWriteFile_vtable\<lparr>wt_append_IOBuf := None\<rparr>) = None
   \<and> wt_getAttributes (InMemoryWriteFile_vtable\<lparr>wt_append_IOBuf := None\<rparr>) = None
   \<and> wcall_append_IOBuf (InMemoryWriteFile_vtable\<lparr>wt_append_IOBuf := None\<rparr>)
        (InMemoryWriteFile_of ''abc'') ''de''
        = Inl (NotImplemented ''IOBuf appending is not implemented'')
   \<and> wcall_write InMemoryWriteFile_vtable (InMemoryWriteFile_of ''abc'') [''de''] 0 2
        = Inl (NotImplemented ''write is not implemented'')
   \<and> wcall_truncate InMemoryWriteFile_vtable (InMemoryWriteFile_of ''abc'') 1
        = Inl (NotImplemented ''truncate is not implemented'')
   \<and> wcall_setAttributes InMemoryWriteFile_vtable (InMemoryWriteFile_of ''abc'') Map.empty
        = Inl (NotImplemented ''setAttributes is not implemented'')
   \<and> wcall_getAttributes InMemoryWriteFile_vtable (InMemoryWriteFile_of ''abc'')
        = Inl (NotImplemented ''getAttributes is not implemented'')"
  using WriteFile_defaults_not_implemented
      [of "InMemoryWriteFile_vtable\<lparr>wt_append_IOBuf := None\<rparr>" "InMemoryWriteFile_of ''abc''"
          "''de''" "[''de'']" 0 2 1 Map.empty]
    WriteFile_defaults_not_implemented
      [of InMemoryWriteFile_vtable "InMemoryWriteFile_of ''abc''"
          "''de''" "[''de'']" 0 2 1 Map.empty]
  by (simp add: InMemoryWriteFile_vtable_slots)

text \<open>
  C10.  \<open>getName()\<close> raises the \<open>NotImplemented\<close> error on an object whose class
  does not override it; \<open>InMemoryWriteFile\<close> does not override it, so \<open>getName()\<close>
  fails on every in-memory write file.
\<close>

theorem getName_not_implemented_in_memory:
  "(wt_getName vt = None \<longrightarrow>
      wcall_getName vt f = Inl (NotImplemented ''getName is not implemented''))
   \<and> wt_getName InMemoryWriteFile_vtable = None
   \<and> wcall_getName InMemoryWriteFile_vtable g = Inl (NotImplemented ''getName is not implemented'')"
  by (simp add: wcall_getName_def WriteFile_getName_def VELOX_NYI_def
      InMemoryWriteFile_vtable_slots)

theorem getName_not_implemented_in_memory_witness:
  "wt_getName InMemoryWriteFile_vtable = None
   \<and> wcall_getName InMemoryWriteFile_vtable (InMemoryWriteFile_of ''abc'')
        = Inl (NotImplemented ''getName is not implemented'')
   \<and> wcall_getName LocalWriteFile_vtable (LocalWriteFile_init ''/tmp/out'' 3) = Inr ''/tmp/out''"
proof -
  have "wcall_getName LocalWriteFile_vtable (LocalWriteFile_init ''/tmp/out'' 3) = Inr ''/tmp/out''"
    by (simp add: wcall_getName_def LocalWriteFile_vtable_slots LocalWriteFile_getName_def
        LocalWriteFile_init_def)
  then show ?thesis
    using getName_not_implemented_in_memory
      [of InMemoryWriteFile_vtable "InMemoryWriteFile_of ''abc''" "InMemoryWriteFile_of ''abc''"]
    by simp
qed

subsection \<open>The size of a write file after close\<close>

lemma InMemoryWriteFile_step_length:
  "length (file_m (WriteFile_step InMemoryWriteFile_vtable f op)) =
     length (file_m f) + appended_bytes [op]"
  by (cases op)
    (simp_all add: state_after_def wcall_append_def wcall_append_IOBuf_def wcall_write_def
      wcall_truncate_def wcall_flush_def wcall_setAttributes_def InMemoryWriteFile_vtable_slots
      InMemoryWriteFile_append_def InMemoryWriteFile_append_IOBuf_def InMemoryWriteFile_flush_def
      WriteFile_write_def WriteFile_truncate_def WriteFile_setAttributes_def VELOX_NYI_def)

lemma appended_bytes_Cons:
  "appended_bytes (op # ops) = appended_bytes [op] + appended_bytes ops"
  by (cases op) simp_all

lemma InMemoryWriteFile_run_length:
  "length (file_m (WriteFile_run InMemoryWriteFile_vtable f ops)) =
     length (file_m f) + appended_bytes ops"
  unfolding WriteFile_run_def
proof (induction ops arbitrary: f)
  case Nil
  show ?case by simp
next
  case (Cons op ops)
  have "length (file_m (foldl (WriteFile_step InMemoryWriteFile_vtable) f (op # ops))) =
          length (file_m (WriteFile_step InMemoryWriteFile_vtable f op)) + appended_bytes ops"
    using Cons.IH [of "WriteFile_step InMemoryWriteFile_vtable f op"] by simp
  also have "\<dots> = length (file_m f) + appended_bytes [op] + appended_bytes ops"
    by (simp only: InMemoryWriteFile_step_length)
  also have "\<dots> = length (file_m f) + appended_bytes (op # ops)"
    using appended_bytes_Cons [of op ops] by simp
  finally show ?case .
qed

lemma appended_bytes_without_flush:
  "appended_bytes (filter (\<lambda>op. \<not> is_flush op) ops) = appended_bytes ops"
  by (induction ops rule: appended_bytes.induct) simp_all

lemma InMemoryWriteFile_size_after_close:
  "size_after_close InMemoryWriteFile_vtable f = Inr (of_nat (length (file_m f)))"
  by (simp add: size_after_close_def wcall_close_def wcall_size_def InMemoryWriteFile_vtable_slots
      InMemoryWriteFile_close_def InMemoryWriteFile_size_def)

lemma LocalWriteFile_step_open:
  "\<not> closed_m f \<Longrightarrow> \<not> closed_m (WriteFile_step LocalWriteFile_vtable f op)"
  by (cases op)
    (simp_all add: state_after_def wcall_append_def wcall_append_IOBuf_def wcall_write_def
      wcall_truncate_def wcall_flush_def wcall_setAttributes_def LocalWriteFile_vtable_slots
      LocalWriteFile_append_def LocalWriteFile_append_IOBuf_def LocalWriteFile_write_def
      LocalWriteFile_truncate_def LocalWriteFile_flush_def LocalWriteFile_setAttributes_def)

lemma LocalWriteFile_step_size:
  "\<not> closed_m f \<Longrightarrow>
     size_m (WriteFile_step LocalWriteFile_vtable f op) = logical_size (size_m f) [op]"
  by (cases op)
    (simp_all add: state_after_def wcall_append_def wcall_append_IOBuf_def wcall_write_def
      wcall_truncate_def wcall_flush_def wcall_setAttributes_def LocalWriteFile_vtable_slots
      LocalWriteFile_append_def LocalWriteFile_append_IOBuf_def LocalWriteFile_write_def
      LocalWriteFile_truncate_def LocalWriteFile_flush_def LocalWriteFile_setAttributes_def)

lemma logical_size_Cons:
  "logical_size n (op # ops) = logical_size (logical_size n [op]) ops"
  by (cases op) simp_all

lemma LocalWriteFile_run_size:
  "\<not> closed_m f \<Longrightarrow>
     size_m (WriteFile_run LocalWriteFile_vtable f ops) = logical_size (size_m f) ops"
  unfolding WriteFile_run_def
proof (induction ops arbitrary: f)
  case Nil
  show ?case by simp
next
  case (Cons op ops)
  let ?f' = "WriteFile_step LocalWriteFile_vtable f op"
  have opened: "\<not> closed_m ?f'"
    using Cons.prems by (rule LocalWriteFile_step_open)
  have "size_m (foldl (WriteFile_step LocalWriteFile_vtable) f (op # ops)) =
          logical_size (size_m ?f') ops"
    using Cons.IH [OF opened] by simp
  also have "\<dots> = logical_size (logical_size (size_m f) [op]) ops"
    using LocalWriteFile_step_size [OF Cons.prems, of op] by simp
  also have "\<dots> = logical_size (size_m f) (op # ops)"
    using logical_size_Cons [of "size_m f" op ops] by simp
  finally show ?case .
qed

lemma logical_size_without_flush:
  "logical_size n (filter (\<lambda>op. \<not> is_flush op) ops) = logical_size n ops"
  by (induction n ops rule: logical_size.induct) simp_all

lemma LocalWriteFile_size_after_close:
  "size_after_close LocalWriteFile_vtable f = Inr (size_m f)"
  by (simp add: size_after_close_def wcall_close_def wcall_size_def LocalWriteFile_vtable_slots
      LocalWriteFile_close_def LocalWriteFile_size_def)

text \<open>
  C9.  After any sequence of calls on a write file followed by \<open>close()\<close>, \<open>size()\<close>
  returns a value, and it is the final logical size: in memory the bytes in the string at
  the start (none, for an empty string) plus the bytes appended, on the local disk the
  size that the appends, truncations and positional writes have set.  The value is the
  same if the \<open>flush()\<close> calls are left out of the sequence.
\<close>

theorem size_after_close_is_final_size:
  "size_after_close InMemoryWriteFile_vtable
      (WriteFile_run InMemoryWriteFile_vtable (InMemoryWriteFile_of file) ops)
     = Inr (of_nat (length file + appended_bytes ops))
   \<and> size_after_close InMemoryWriteFile_vtable
      (WriteFile_run InMemoryWriteFile_vtable (InMemoryWriteFile_of file)
         (filter (\<lambda>op. \<not> is_flush op) ops))
     = Inr (of_nat (length file + appended_bytes ops))
   \<and> (\<not> closed_m g \<longrightarrow>
        size_after_close LocalWriteFile_vtable (WriteFile_run LocalWriteFile_vtable g ops)
          = Inr (logical_size (size_m g) ops)
      \<and> size_after_close LocalWriteFile_vtable
          (WriteFile_run LocalWriteFile_vtable g (filter (\<lambda>op. \<not> is_flush op) ops))
          = Inr (logical_size (size_m g) ops))"
proof -
  have m: "size_after_close InMemoryWriteFile_vtable
      (WriteFile_run InMemoryWriteFile_vtable (InMemoryWriteFile_of file) os)
     = Inr (of_nat (length file + appended_bytes os))" for os
    by (simp add: InMemoryWriteFile_size_after_close InMemoryWriteFile_run_length
        InMemoryWriteFile_of_def)
  have l: "\<not> closed_m g \<Longrightarrow>
      size_after_close LocalWriteFile_vtable (WriteFile_run LocalWriteFile_vtable g os)
        = Inr (logical_size (size_m g) os)" for os
    by (simp add: LocalWriteFile_size_after_close LocalWriteFile_run_size)
  show ?thesis
    using m [of ops] m [of "filter (\<lambda>op. \<not> is_flush op) ops"]
      l [of ops] l [of "filter (\<lambda>op. \<not> is_flush op) ops"]
    by (simp add: appended_bytes_without_flush logical_size_without_flush)
qed

theorem size_after_close_is_final_size_witness:
  "\<not> closed_m (LocalWriteFile_init ''/tmp/out'' 3)
   \<and> size_after_close InMemoryWriteFile_vtable
        (WriteFile_run InMemoryWriteFile_vtable (InMemoryWriteFile_of [])
           [W_append ''hello'', W_append_IOBuf '' world'', W_truncate 5]) = Inr 11
   \<and> size_after_close LocalWriteFile_vtable
        (WriteFile_run LocalWriteFile_vtable (LocalWriteFile_init ''/tmp/out'' 3)
           [W_append ''hello'', W_append_IOBuf '' world'', W_truncate 5]) = Inr 5"
  using size_after_close_is_final_size
      [of "[]" "[W_append ''hello'', W_append_IOBuf '' world'', W_truncate 5]"
          "LocalWriteFile_init ''/tmp/out'' 3"]
  by (simp add: LocalWriteFile_init_def)

subsection \<open>Single reads of an in-memory file\<close>

lemma InMemoryReadFile_size_le_length:
  "unat (InMemoryReadFile_size f) \<le> length (InMemoryReadFile.file_m f)"
  by (simp add: InMemoryReadFile_size_def unat_of_nat)

lemma length_file_bytes:
  "unat offset + unat len \<le> length file \<Longrightarrow> length (file_bytes file offset len) = unat len"
  by (simp add: file_bytes_def)

lemma nth_file_bytes:
  "unat offset + unat len \<le> length file \<Longrightarrow> i < unat len \<Longrightarrow>
     file_bytes file offset len ! i = file ! (unat offset + i)"
  by (simp add: file_bytes_def)

lemma InMemoryReadFile_pread_in_range:
  assumes "unat offset + unat len \<le> unat (InMemoryReadFile_size f)"
  shows "InMemoryReadFile_pread f offset len buf stats =
           (Inr (0, unat len),
            file_bytes (InMemoryReadFile.file_m f) offset len @ drop (unat len) buf,
            f\<lparr>bytesRead_m := bytesRead_m f + len\<rparr>)"
  using assms by (simp add: InMemoryReadFile_pread_def Let_def)

lemma InMemoryReadFile_pread_out_of_range:
  assumes "unat offset + unat len > unat (InMemoryReadFile_size f)"
  shows "InMemoryReadFile_pread f offset len buf stats =
           (Inl OutOfRange, buf, f\<lparr>bytesRead_m := bytesRead_m f + len\<rparr>)"
  using assms by (simp add: InMemoryReadFile_pread_def Let_def)

text \<open>
  C7.  A call \<open>pread(offset, length, buf)\<close> fails with \<open>OutOfRange\<close> if offset plus
  length exceeds \<open>size()\<close>.  Otherwise, on a buffer of at least \<open>length\<close> bytes, it
  returns a view over the first \<open>length\<close> bytes of the buffer, these are the bytes of
  the file from \<open>offset\<close> on, and the rest of the buffer is as before.
\<close>

theorem pread_out_of_range_or_exact_bytes:
  "(unat offset + unat len > unat (call_size InMemoryReadFile_vtable f) \<longrightarrow>
      fst (call_pread InMemoryReadFile_vtable f offset len buf stats) = Inl OutOfRange)
   \<and> (unat offset + unat len \<le> unat (call_size InMemoryReadFile_vtable f)
        \<and> unat len \<le> length buf \<longrightarrow>
      (\<exists>v buf' f'. call_pread InMemoryReadFile_vtable f offset len buf stats = (Inr v, buf', f')
         \<and> view_bytes buf' v = take (unat len) buf'
         \<and> length (view_bytes buf' v) = unat len
         \<and> (\<forall>i<unat len. view_bytes buf' v ! i = InMemoryReadFile.file_m f ! (unat offset + i))
         \<and> length buf' = length buf
         \<and> drop (unat len) buf' = drop (unat len) buf))"
proof -
  let ?file = "InMemoryReadFile.file_m f"
  have far: "unat offset + unat len > unat (InMemoryReadFile_size f) \<Longrightarrow>
      fst (InMemoryReadFile_pread f offset len buf stats) = Inl OutOfRange"
    by (simp add: InMemoryReadFile_pread_out_of_range)
  have near: "\<exists>v buf' f'. InMemoryReadFile_pread f offset len buf stats = (Inr v, buf', f')
         \<and> view_bytes buf' v = take (unat len) buf'
         \<and> length (view_bytes buf' v) = unat len
         \<and> (\<forall>i<unat len. view_bytes buf' v ! i = ?file ! (unat offset + i))
         \<and> length buf' = length buf
         \<and> drop (unat len) buf' = drop (unat len) buf"
    if inside: "unat offset + unat len \<le> unat (InMemoryReadFile_size f)"
      and room: "unat len \<le> length buf"
  proof -
    have fits: "unat offset + unat len \<le> length ?file"
      using inside InMemoryReadFile_size_le_length [of f] by simp
    let ?bytes = "file_bytes ?file offset len"
    let ?buf' = "?bytes @ drop (unat len) buf"
    have n: "length ?bytes = unat len"
      using fits by (rule length_file_bytes)
    have view: "view_bytes ?buf' (0, unat len) = ?bytes"
      using n by (simp add: view_bytes_def)
    have "InMemoryReadFile_pread f offset len buf stats =
            (Inr (0, unat len), ?buf', f\<lparr>bytesRead_m := bytesRead_m f + len\<rparr>)"
      using inside by (rule InMemoryReadFile_pread_in_range)
    moreover have "view_bytes ?buf' (0, unat len) = take (unat len) ?buf'"
      by (simp add: view_bytes_def)
    moreover have "length (view_bytes ?buf' (0, unat len)) = unat len"
      using n view by simp
    moreover have "\<forall>i<unat len. view_bytes ?buf' (0, unat len) ! i = ?file ! (unat offset + i)"
      using view nth_file_bytes [OF fits] by simp
    moreover have "length ?buf' = length buf"
      using n room by simp
    moreover have "drop (unat len) ?buf' = drop (unat len) buf"
      using n by simp
    ultimately show ?thesis by blast
  qed
  show ?thesis
    using far near
    by (simp add: call_size_def call_pread_def InMemoryReadFile_vtable_slots)
qed

theorem pread_out_of_range_or_exact_bytes_witness:
  "unat (11 :: u64) + unat (1 :: u64)
      > unat (call_size InMemoryReadFile_vtable (InMemoryReadFile_of_view ''hello world''))
   \<and> fst (call_pread InMemoryReadFile_vtable (InMemoryReadFile_of_view ''hello world'') 11 1
            ''.......'' None) = Inl OutOfRange
   \<and> unat (6 :: u64) + unat (5 :: u64)
      \<le> unat (call_size InMemoryReadFile_vtable (InMemoryReadFile_of_view ''hello world''))
   \<and> unat (5 :: u64) \<le> length ''.......''
   \<and> call_pread InMemoryReadFile_vtable (InMemoryReadFile_of_view ''hello world'') 6 5
        ''.......'' None
       = (Inr (0, 5), ''world..'', (InMemoryReadFile_of_view ''hello world'')\<lparr>bytesRead_m := 5\<rparr>)
   \<and> view_bytes ''world..'' (0, 5) = ''world''"
proof -
  have sz: "unat (call_size InMemoryReadFile_vtable (InMemoryReadFile_of_view ''hello world'')) = 11"
    by (simp add: call_size_def InMemoryReadFile_vtable_slots InMemoryReadFile_size_def
        InMemoryReadFile_of_view_def)
  have rd: "call_pread InMemoryReadFile_vtable (InMemoryReadFile_of_view ''hello world'') 6 5
        ''.......'' None
       = (Inr (0, 5), ''world..'', (InMemoryReadFile_of_view ''hello world'')\<lparr>bytesRead_m := 5\<rparr>)"
    by (simp add: call_pread_def InMemoryReadFile_vtable_slots InMemoryReadFile_pread_def
        InMemoryReadFile_size_def InMemoryReadFile_of_view_def file_bytes_def Let_def)
  show ?thesis
    using sz rd
      pread_out_of_range_or_exact_bytes
        [where offset = 11 and len = 1 and f = "InMemoryReadFile_of_view ''hello world''"
           and buf = "''.......''" and stats = None]
      pread_out_of_range_or_exact_bytes
        [where offset = 6 and len = 5 and f = "InMemoryReadFile_of_view ''hello world''"
           and buf = "''.......''" and stats = None]
    by (simp add: view_bytes_def)
qed

subsection \<open>Batched reads of an in-memory file\<close>

lemma view_of_fresh_read:
  assumes "unat offset + unat len \<le> length file"
  shows "view_bytes (file_bytes file offset len @ drop (unat len) (fresh_buffer (unat len)))
           (0, unat len) = file_bytes file offset len"
  using length_file_bytes [OF assms] by (simp add: view_bytes_def)

lemma preadv_regions_loop_outputs:
  assumes "\<forall>r\<in>set rs. unat (region_offset r) + unat (region_length r)
             \<le> unat (InMemoryReadFile_size f)"
      and "i + length rs \<le> length iobufs"
  shows "\<exists>outs. preadv_regions_loop InMemoryReadFile_vtable f rs i iobufs n stats =
           (Inr (n + sum_list (map region_length rs)), outs,
            f\<lparr>bytesRead_m := bytesRead_m f + sum_list (map region_length rs)\<rparr>)
         \<and> length outs = length iobufs
         \<and> (\<forall>k<length rs. outs ! (i + k) =
               file_bytes (InMemoryReadFile.file_m f) (region_offset (rs ! k))
                 (region_length (rs ! k)))
         \<and> (\<forall>j<i. outs ! j = iobufs ! j)"
  using assms
proof (induction rs arbitrary: f i iobufs n)
  case Nil
  then show ?case by simp
next
  case (Cons r rs)
  let ?file = "InMemoryReadFile.file_m f"
  let ?bytes = "file_bytes ?file (region_offset r) (region_length r)"
  let ?f' = "f\<lparr>bytesRead_m := bytesRead_m f + region_length r\<rparr>"
  let ?iobufs' = "iobufs[i := ?bytes]"
  have inside: "unat (region_offset r) + unat (region_length r) \<le> unat (InMemoryReadFile_size f)"
    using Cons.prems(1) by simp
  have fits: "unat (region_offset r) + unat (region_length r) \<le> length ?file"
    using inside InMemoryReadFile_size_le_length [of f] by simp
  have i_in: "i < length iobufs"
    using Cons.prems(2) by simp
  have rest_inside: "\<forall>q\<in>set rs. unat (region_offset q) + unat (region_length q)
             \<le> unat (InMemoryReadFile_size ?f')"
    using Cons.prems(1) by simp
  have rest_room: "Suc i + length rs \<le> length ?iobufs'"
    using Cons.prems(2) by simp
  obtain outs where
    run: "preadv_regions_loop InMemoryReadFile_vtable ?f' rs (Suc i) ?iobufs'
            (n + region_length r) stats =
           (Inr (n + region_length r + sum_list (map region_length rs)), outs,
            ?f'\<lparr>bytesRead_m := bytesRead_m ?f' + sum_list (map region_length rs)\<rparr>)"
    and len: "length outs = length ?iobufs'"
    and later: "\<forall>k<length rs. outs ! (Suc i + k) =
               file_bytes (InMemoryReadFile.file_m ?f') (region_offset (rs ! k))
                 (region_length (rs ! k))"
    and earlier: "\<forall>j<Suc i. outs ! j = ?iobufs' ! j"
    using Cons.IH [OF rest_inside rest_room, of "n + region_length r"] by blast
  have step: "preadv_regions_loop InMemoryReadFile_vtable f (r # rs) i iobufs n stats =
          preadv_regions_loop InMemoryReadFile_vtable ?f' rs (Suc i) ?iobufs'
            (n + region_length r) stats"
    using InMemoryReadFile_pread_in_range [OF inside, of "fresh_buffer (unat (region_length r))" stats]
      view_of_fresh_read [OF fits]
    by (simp add: call_pread_def InMemoryReadFile_vtable_slots)
  have result: "preadv_regions_loop InMemoryReadFile_vtable f (r # rs) i iobufs n stats =
           (Inr (n + sum_list (map region_length (r # rs))), outs,
            f\<lparr>bytesRead_m := bytesRead_m f + sum_list (map region_length (r # rs))\<rparr>)"
    using step run by (simp add: add.assoc)
  have at_i: "outs ! i = ?bytes"
    using earlier i_in by simp
  have all_later: "outs ! (i + k) =
      file_bytes ?file (region_offset ((r # rs) ! k)) (region_length ((r # rs) ! k))"
    if "k < length (r # rs)" for k
  proof (cases k)
    case 0
    then show ?thesis using at_i by simp
  next
    case (Suc k')
    then have "k' < length rs" using that by simp
    then show ?thesis using later Suc by simp
  qed
  have all_earlier: "outs ! j = iobufs ! j" if "j < i" for j
    using earlier that by simp
  show ?case
    using result len all_later all_earlier by auto
qed

lemma list_of_three:
  assumes "length xs = 3" and "xs ! 0 = a" and "xs ! 1 = b" and "xs ! 2 = c"
  shows "xs = [a, b, c]"
proof -
  obtain x y z where "xs = [x, y, z]"
    using assms(1) by (auto simp: length_Suc_conv numeral_3_eq_3)
  then show ?thesis using assms by simp
qed

text \<open>
  C1.  For every batch of regions that lie within the file, in any order and whether or
  not they overlap, and an output array of the same length, the batch read returns the
  total of the region lengths and leaves in output \<open>i\<close> exactly the bytes of the file
  at region \<open>i\<close>, for every index \<open>i\<close>.
\<close>

theorem preadv_regions_populates_outputs:
  assumes "length iobufs = length regions"
      and "\<forall>r\<in>set regions. unat (region_offset r) + unat (region_length r)
             \<le> unat (call_size InMemoryReadFile_vtable f)"
  shows "fst (call_preadv_regions InMemoryReadFile_vtable f regions iobufs stats)
           = Inr (sum_list (map region_length regions))
         \<and> length (fst (snd (call_preadv_regions InMemoryReadFile_vtable f regions iobufs stats)))
           = length regions
         \<and> (\<forall>i<length regions.
               fst (snd (call_preadv_regions InMemoryReadFile_vtable f regions iobufs stats)) ! i
                 = file_bytes (InMemoryReadFile.file_m f) (region_offset (regions ! i))
                     (region_length (regions ! i)))"
proof -
  have inside: "\<forall>r\<in>set regions. unat (region_offset r) + unat (region_length r)
             \<le> unat (InMemoryReadFile_size f)"
    using assms(2) by (simp add: call_size_def InMemoryReadFile_vtable_slots)
  have room: "0 + length regions \<le> length iobufs"
    using assms(1) by simp
  obtain outs where
    run: "preadv_regions_loop InMemoryReadFile_vtable f regions 0 iobufs 0 stats =
           (Inr (0 + sum_list (map region_length regions)), outs,
            f\<lparr>bytesRead_m := bytesRead_m f + sum_list (map region_length regions)\<rparr>)"
    and len: "length outs = length iobufs"
    and each: "\<forall>k<length regions. outs ! (0 + k) =
               file_bytes (InMemoryReadFile.file_m f) (region_offset (regions ! k))
                 (region_length (regions ! k))"
    using preadv_regions_loop_outputs [OF inside room, of 0 stats] by blast
  have call: "call_preadv_regions InMemoryReadFile_vtable f regions iobufs stats =
           (Inr (sum_list (map region_length regions)), outs,
            f\<lparr>bytesRead_m := bytesRead_m f + sum_list (map region_length regions)\<rparr>)"
    using run
    by (simp add: call_preadv_regions_def InMemoryReadFile_vtable_slots ReadFile_preadv_regions_def)
  show ?thesis
    using call len each assms(1) by simp
qed

theorem preadv_regions_populates_outputs_witness:
  "length ['''', '''', ''''] =
     length [\<lparr>region_offset = 6, region_length = 5\<rparr>, \<lparr>region_offset = 0, region_length = 5\<rparr>,
             \<lparr>region_offset = 3, region_length = 5\<rparr>]
   \<and> unat (6 :: u64) + unat (5 :: u64)
        \<le> unat (call_size InMemoryReadFile_vtable (InMemoryReadFile_of_view ''hello world''))
   \<and> unat (0 :: u64) + unat (5 :: u64)
        \<le> unat (call_size InMemoryReadFile_vtable (InMemoryReadFile_of_view ''hello world''))
   \<and> unat (3 :: u64) + unat (5 :: u64)
        \<le> unat (call_size InMemoryReadFile_vtable (InMemoryReadFile_of_view ''hello world''))
   \<and> fst (call_preadv_regions InMemoryReadFile_vtable (InMemoryReadFile_of_view ''hello world'')
        [\<lparr>region_offset = 6, region_length = 5\<rparr>, \<lparr>region_offset = 0, region_length = 5\<rparr>,
         \<lparr>region_offset = 3, region_length = 5\<rparr>] ['''', '''', ''''] None) = Inr 15
   \<and> fst (snd (call_preadv_regions InMemoryReadFile_vtable (InMemoryReadFile_of_view ''hello world'')
        [\<lparr>region_offset = 6, region_length = 5\<rparr>, \<lparr>region_offset = 0, region_length = 5\<rparr>,
         \<lparr>region_offset = 3, region_length = 5\<rparr>] ['''', '''', ''''] None))
       = [''world'', ''hello'', ''lo wo'']"
proof -
  let ?f = "InMemoryReadFile_of_view ''hello world''"
  let ?regions = "[\<lparr>region_offset = 6, region_length = 5\<rparr>, \<lparr>region_offset = 0, region_length = 5\<rparr>,
                   \<lparr>region_offset = 3, region_length = 5\<rparr>]"
  have sz: "unat (call_size InMemoryReadFile_vtable ?f) = 11"
    by (simp add: call_size_def InMemoryReadFile_vtable_slots InMemoryReadFile_size_def
        InMemoryReadFile_of_view_def)
  have eq_len: "length ['''', '''', ''''] = length ?regions"
    by simp
  have inside: "\<forall>r\<in>set ?regions. unat (region_offset r) + unat (region_length r)
                  \<le> unat (call_size InMemoryReadFile_vtable ?f)"
    by (simp add: sz)
  have content: "InMemoryReadFile.file_m ?f = ''hello world''"
    by (simp add: InMemoryReadFile_of_view_def)
  note outs = preadv_regions_populates_outputs [OF eq_len inside, of None]
  have l: "length (fst (snd (call_preadv_regions InMemoryReadFile_vtable ?f ?regions
              ['''', '''', ''''] None))) = 3"
    using outs by simp
  have e0: "fst (snd (call_preadv_regions InMemoryReadFile_vtable ?f ?regions
              ['''', '''', ''''] None)) ! 0 = ''world''"
    using outs by (simp add: content file_bytes_def)
  have e1: "fst (snd (call_preadv_regions InMemoryReadFile_vtable ?f ?regions
              ['''', '''', ''''] None)) ! 1 = ''hello''"
    using outs by (simp add: content file_bytes_def)
  have e2: "fst (snd (call_preadv_regions InMemoryReadFile_vtable ?f ?regions
              ['''', '''', ''''] None)) ! 2 = ''lo wo''"
    using outs by (simp add: content file_bytes_def)
  have all: "fst (snd (call_preadv_regions InMemoryReadFile_vtable ?f ?regions
              ['''', '''', ''''] None)) = [''world'', ''hello'', ''lo wo'']"
    using l e0 e1 e2 by (rule list_of_three)
  show ?thesis
    using eq_len sz outs all by simp
qed

subsection \<open>The counter of bytes read\<close>

lemma counted_counter [simp]:
  "counted (f\<lparr>bytesRead_m := c\<rparr>) op = counted f op"
  by (cases op) simp_all

lemma call_bytesRead_in_memory:
  "call_bytesRead InMemoryReadFile_vtable f = bytesRead_m f"
  by (simp add: call_bytesRead_def InMemoryReadFile_vtable_slots ReadFile_bytesRead_def)

lemma bytesRead_trace_sorted:
  assumes "\<forall>op\<in>set ops. is_read op"
      and "unat (bytesRead_m f) + sum_list (map (\<lambda>op. unat (counted f op)) ops) < 2 ^ 64"
  shows "sorted (map bytesRead_m (ReadFile_trace InMemoryReadFile_vtable f ops))
         \<and> (\<forall>g\<in>set (ReadFile_trace InMemoryReadFile_vtable f ops). bytesRead_m f \<le> bytesRead_m g)
         \<and> unat (bytesRead_m (last (ReadFile_trace InMemoryReadFile_vtable f ops)))
             = unat (bytesRead_m f) + sum_list (map (\<lambda>op. unat (counted f op)) ops)"
  using assms
proof (induction ops arbitrary: f)
  case Nil
  then show ?case by simp
next
  case (Cons op ops)
  let ?f' = "f\<lparr>bytesRead_m := bytesRead_m f + counted f op\<rparr>"
  have rd: "is_read op" using Cons.prems(1) by simp
  have step: "ReadFile_step InMemoryReadFile_vtable f op = ?f'"
    using rd by (rule InMemoryReadFile_read_step)
  have small: "unat (bytesRead_m f) + unat (counted f op) < 2 ^ 64"
    using Cons.prems(2) by simp
  have sum: "unat (bytesRead_m f + counted f op) = unat (bytesRead_m f) + unat (counted f op)"
    using small by (simp add: unat_add_lem [THEN iffD1])
  have up: "bytesRead_m f \<le> bytesRead_m ?f'"
    using sum by (simp add: word_le_nat_alt)
  have rest_read: "\<forall>q\<in>set ops. is_read q" using Cons.prems(1) by simp
  have rest_small: "unat (bytesRead_m ?f') + sum_list (map (\<lambda>q. unat (counted ?f' q)) ops) < 2 ^ 64"
    using Cons.prems(2) sum by simp
  note ih = Cons.IH [OF rest_read rest_small]
  have above: "\<forall>g\<in>set (ReadFile_trace InMemoryReadFile_vtable ?f' ops). bytesRead_m f \<le> bytesRead_m g"
    using ih up by (meson order_trans)
  have nonempty: "ReadFile_trace InMemoryReadFile_vtable ?f' ops \<noteq> []"
    by (cases ops) simp_all
  show ?case
    using ih above nonempty sum by (simp add: step)
qed

lemma unat_add_le_sum: "unat (a + b) \<le> unat a + unat (b :: u64)"
  by (simp add: unat_word_ariths)

lemma issued_length_le:
  "unat (issued_length f rs) \<le> sum_list (map (\<lambda>r. unat (region_length r)) rs)"
proof (induction rs)
  case Nil
  show ?case by simp
next
  case (Cons r rs)
  have "unat (issued_length f (r # rs))
          \<le> unat (region_length r)
              + unat (if unat (region_offset r) + unat (region_length r)
                          > unat (InMemoryReadFile_size f)
                      then 0 else issued_length f rs)"
    using unat_add_le_sum by simp
  also have "\<dots> \<le> unat (region_length r) + sum_list (map (\<lambda>r. unat (region_length r)) rs)"
    using Cons.IH by simp
  finally show ?case by simp
qed

lemma counted_le_requested_total: "unat (counted f op) \<le> requested_total op"
proof (cases op)
  case (Op_preadv_regions regions iobufs stats)
  then show ?thesis by (simp add: issued_length_le)
qed (simp_all add: unat_of_nat)

lemma sum_counted_le:
  "sum_list (map (\<lambda>op. unat (counted f op)) ops) \<le> sum_list (map requested_total ops)"
  by (induction ops) (simp_all add: add_mono counted_le_requested_total)

lemma preadv_regions_loop_completes:
  "\<not> isl (fst (preadv_regions_loop InMemoryReadFile_vtable f rs i iobufs n stats)) \<Longrightarrow>
     issued_length f rs = sum_list (map region_length rs)"
proof (induction rs arbitrary: f i iobufs n)
  case Nil
  show ?case by simp
next
  case (Cons r rs)
  let ?f' = "f\<lparr>bytesRead_m := bytesRead_m f + region_length r\<rparr>"
  let ?b = "fresh_buffer (unat (region_length r))"
  show ?case
  proof (cases "unat (region_offset r) + unat (region_length r) > unat (InMemoryReadFile_size f)")
    case True
    then have "isl (fst (preadv_regions_loop InMemoryReadFile_vtable f (r # rs) i iobufs n stats))"
      using InMemoryReadFile_pread_out_of_range [of f "region_offset r" "region_length r" ?b stats]
      by (simp add: call_pread_def InMemoryReadFile_vtable_slots)
    with Cons.prems show ?thesis by simp
  next
    case False
    then have inside: "unat (region_offset r) + unat (region_length r)
                         \<le> unat (InMemoryReadFile_size f)"
      by simp
    have "\<not> isl (fst (preadv_regions_loop InMemoryReadFile_vtable ?f' rs (Suc i)
              (iobufs[i := view_bytes
                 (file_bytes (InMemoryReadFile.file_m f) (region_offset r) (region_length r)
                    @ drop (unat (region_length r)) ?b) (0, unat (region_length r))])
              (n + region_length r) stats))"
      using Cons.prems InMemoryReadFile_pread_in_range [OF inside, of ?b stats]
      by (simp add: call_pread_def InMemoryReadFile_vtable_slots)
    then have "issued_length ?f' rs = sum_list (map region_length rs)"
      by (rule Cons.IH)
    then show ?thesis using False by simp
  qed
qed

lemma completes_counted:
  assumes "completes InMemoryReadFile_vtable f op"
  shows "counted f op = requested_sum op"
proof (cases op)
  case (Op_preadv_regions regions iobufs stats)
  then show ?thesis
    using assms preadv_regions_loop_completes [of f regions 0 iobufs 0 stats]
    by (simp add: call_preadv_regions_def InMemoryReadFile_vtable_slots ReadFile_preadv_regions_def)
qed simp_all

lemma ReadFile_run_replicate:
  "is_read op \<Longrightarrow>
     ReadFile_run InMemoryReadFile_vtable f (replicate k op)
       = f\<lparr>bytesRead_m := bytesRead_m f + of_nat k * counted f op\<rparr>"
proof (induction k arbitrary: f)
  case 0
  show ?case by (simp add: ReadFile_run_def)
next
  case (Suc k)
  let ?f' = "f\<lparr>bytesRead_m := bytesRead_m f + counted f op\<rparr>"
  have "ReadFile_run InMemoryReadFile_vtable f (replicate (Suc k) op)
          = ReadFile_run InMemoryReadFile_vtable ?f' (replicate k op)"
    using InMemoryReadFile_read_step [OF Suc.prems, of f] by (simp add: ReadFile_run_def)
  then show ?case
    using Suc.IH [OF Suc.prems, of ?f'] by (simp add: algebra_simps)
qed

lemma pread_owned_completes:
  "completes InMemoryReadFile_vtable f (Op_pread_owned offset len stats)
     \<longleftrightarrow> unat offset + unat len \<le> unat (InMemoryReadFile_size f)"
proof (cases "unat offset + unat len \<le> unat (InMemoryReadFile_size f)")
  case True
  then show ?thesis
    using InMemoryReadFile_pread_in_range [OF True, of "fresh_buffer (unat len)" stats]
    by (simp add: call_pread_owned_def InMemoryReadFile_vtable_slots
        InMemoryReadFile_pread_owned_def)
next
  case False
  then have "unat offset + unat len > unat (InMemoryReadFile_size f)" by simp
  from InMemoryReadFile_pread_out_of_range [OF this, of "fresh_buffer (unat len)" stats] False
  show ?thesis
    by (simp add: call_pread_owned_def InMemoryReadFile_vtable_slots
        InMemoryReadFile_pread_owned_def)
qed




end
